theory Spec2Isabelle
  imports Complex_Main
begin

section \<open>Lab Record Generator API: a shallow embedding of \<open>main.py\<close>\<close>

text \<open>
  The module is a FastAPI application with two handlers that do work: \<open>upload_logo\<close> and
  \<open>generate_docx\<close>. Both run in a \<open>try\<close> block whose \<open>except Exception\<close> clause turns
  every exception into \<open>HTTPException(status_code=500)\<close>. The handlers talk to the
  file system and to three libraries (qrcode, Pillow, python-docx). The model makes both
  explicit:
  \<^item> the file system is a state \<open>fs\<close> that every handler takes and returns, on the
    failing path as well, since files written before an exception stay on disk;
  \<^item> the library calls whose outcome the program cannot know are fields of a record
    \<open>libs\<close>: QR encoding, resampling, PNG encoding, decoding an uploaded image and
    python-docx's recognition of an image file;
  \<^item> a document is the tree of blocks it holds, with the attributes the program sets;
    an attribute that the program never sets is \<open>None\<close> (the library's default);
  \<^item> exceptions are values of type \<open>exn\<close>, and every handler returns \<open>exn + result\<close>.

  A Python \<open>str\<close> is modelled by its UTF-8 encoding, a list of bytes. Paths are compared
  as strings (no symbolic links, no \<open>..\<close> normalisation), and \<open>dirs\<close> holds the directories in
  which the process may create files.
\<close>

subsection \<open>Python strings\<close>

type_synonym bytes = string

definition digit :: "nat \<Rightarrow> char" where
  "digit d = ''0123456789'' ! d"

text \<open>\<open>str(n)\<close> for a non-negative integer: its decimal digits.\<close>

fun str_nat :: "nat \<Rightarrow> string" where
  "str_nat n = (if n < 10 then [digit n] else str_nat (n div 10) @ [digit (n mod 10)])"

declare str_nat.simps [simp del]

text \<open>\<open>str.zfill(width)\<close>: pads with zeros on the left, after a leading sign.\<close>

definition zfill :: "nat \<Rightarrow> string \<Rightarrow> string" where
  "zfill width s =
     (if width \<le> length s then s
      else (case s of
              c # rest \<Rightarrow>
                (if c = CHR ''+'' \<or> c = CHR ''-''
                 then c # replicate (width - length s) CHR ''0'' @ rest
                 else replicate (width - length s) CHR ''0'' @ s)
            | [] \<Rightarrow> replicate (width - length s) CHR ''0'' @ s))"

definition startswith :: "string \<Rightarrow> string \<Rightarrow> bool" where
  "startswith s p = (take (length p) s = p)"

definition endswith :: "string \<Rightarrow> string \<Rightarrow> bool" where
  "endswith s p = (length p \<le> length s \<and> drop (length s - length p) s = p)"

text \<open>
  \<open>str.lower\<close> and \<open>str.upper\<close> on the ASCII letters. The program compares the lowered
  extension with ASCII words only, and no non-ASCII character lowers to a letter of
  those words, so the bytes above 127 are left as they are.
\<close>

definition ascii_uppercase :: string where
  "ascii_uppercase = ''ABCDEFGHIJKLMNOPQRSTUVWXYZ''"

definition ascii_lowercase :: string where
  "ascii_lowercase = ''abcdefghijklmnopqrstuvwxyz''"

definition lower_char :: "char \<Rightarrow> char" where
  "lower_char c =
     (case map_of (zip ascii_uppercase ascii_lowercase) c of None \<Rightarrow> c | Some d \<Rightarrow> d)"

definition upper_char :: "char \<Rightarrow> char" where
  "upper_char c =
     (case map_of (zip ascii_lowercase ascii_uppercase) c of None \<Rightarrow> c | Some d \<Rightarrow> d)"

definition lower :: "string \<Rightarrow> string" where
  "lower s = map lower_char s"

definition capitalize :: "string \<Rightarrow> string" where
  "capitalize s = (case s of [] \<Rightarrow> [] | c # cs \<Rightarrow> upper_char c # map lower_char cs)"

text \<open>\<open>s.split('.')[-1]\<close>: what follows the last dot, or all of \<open>s\<close> without a dot.\<close>

definition split_last :: "char \<Rightarrow> string \<Rightarrow> string" where
  "split_last sep s = rev (takeWhile (\<lambda>c. c \<noteq> sep) (rev s))"

text \<open>
  The text that python-docx hands to lxml must be XML compatible, or lxml raises
  \<open>ValueError\<close>. On the UTF-8 encoding lxml checks that every byte below 128 is a tab, a
  newline, a carriage return or at least 32, and that no three bytes in a row encode
  U+FFFE, U+FFFF or a surrogate (U+D800 to U+DFFF).
\<close>

definition xml_char_ok :: "char \<Rightarrow> bool" where
  "xml_char_ok c =
     ((of_char c :: nat) = 9 \<or> (of_char c :: nat) = 10 \<or> (of_char c :: nat) = 13
      \<or> 32 \<le> (of_char c :: nat))"

definition forbidden3 :: "char \<Rightarrow> char \<Rightarrow> char \<Rightarrow> bool" where
  "forbidden3 a b c =
     (let n = ((of_char a :: nat) * 256 + of_char b) * 256 + of_char c
      in n = 0xEFBFBE \<or> n = 0xEFBFBF \<or> (0xEDA080 \<le> n \<and> n \<le> 0xEDBFBF))"

fun no_forbidden3 :: "string \<Rightarrow> bool" where
  "no_forbidden3 (a # b # c # rest) = (\<not> forbidden3 a b c \<and> no_forbidden3 (b # c # rest))"
| "no_forbidden3 s = True"

definition xml_compatible :: "string \<Rightarrow> bool" where
  "xml_compatible s = (list_all xml_char_ok s \<and> no_forbidden3 s)"

subsection \<open>Exceptions\<close>

text \<open>
  \<open>detail\<close> is the \<open>detail\<close> argument of an \<open>HTTPException\<close>: a literal, or the f-string
  \<open>f"<prefix>{str(e)}"\<close> kept as its prefix and the exception \<open>e\<close>. \<open>OSError\<close> stands for
  the errors of \<open>open\<close> and \<open>os.remove\<close> with the path they failed on, \<open>ValueError\<close> is
  raised by lxml for text that XML cannot hold and by \<open>open\<close> for a path with a NUL
  byte, \<open>LibraryError\<close> stands
  for an exception raised inside qrcode, Pillow or python-docx, and
  \<open>RequestValidationError\<close> is what FastAPI answers (status 422) when the request body
  does not fit the handler's pydantic model.
\<close>

datatype exn =
    HTTPException nat detail
  | OSError string
  | IndexError
  | AttributeError
  | ValueError
  | LibraryError string
  | RequestValidationError
and detail =
    Literal string
  | Formatted string exn

subsection \<open>Documents\<close>

datatype length = Inches real | Pt nat

datatype alignment = CENTER | RIGHT

record run =
  r_text :: string
  r_bold :: "bool option"
  r_size :: "length option"
  r_color :: "(nat \<times> nat \<times> nat) option"
  r_underline :: "bool option"
  r_picture :: "(bytes \<times> length) option"

record docx_paragraph =
  p_runs :: "run list"
  p_alignment :: "alignment option"

text \<open>An element that \<open>set_cell_border\<close> appends to the cell's \<open>tcPr\<close>.\<close>

record oxml_element =
  e_tag :: string
  e_attrs :: "(string \<times> string) list"

record cell =
  c_paragraphs :: "docx_paragraph list"
  c_width :: "length option"
  c_tcPr :: "oxml_element list"

record table =
  t_rows :: "cell list list"
  t_style :: "string option"
  t_autofit :: "bool option"

datatype block = Paragraph docx_paragraph | Table table

record section_margins =
  top_margin :: "length option"
  bottom_margin :: "length option"
  left_margin :: "length option"
  right_margin :: "length option"

record document =
  d_sections :: "section_margins list"
  d_body :: "block list"

text \<open>\<open>Document()\<close>: the default template, one section and an empty body.\<close>

definition Document :: document where
  "Document =
     \<lparr>d_sections = [\<lparr>top_margin = None, bottom_margin = None,
                      left_margin = None, right_margin = None\<rparr>],
      d_body = []\<rparr>"

definition empty_run :: run where
  "empty_run = \<lparr>r_text = [], r_bold = None, r_size = None, r_color = None,
                 r_underline = None, r_picture = None\<rparr>"

text \<open>
  \<open>paragraph.add_run(text)\<close> returns the new run; \<open>new_run\<close> is that run and \<open>text_run\<close>
  the call, which raises \<open>ValueError\<close> when the text is not XML compatible.
\<close>

definition new_run :: "string \<Rightarrow> run" where
  "new_run s = empty_run\<lparr>r_text := s\<rparr>"

definition text_run :: "string \<Rightarrow> exn + run" where
  "text_run s = (if xml_compatible s then Inr (new_run s) else Inl ValueError)"

definition empty_paragraph :: docx_paragraph where
  "empty_paragraph = \<lparr>p_runs = [], p_alignment = None\<rparr>"

definition add_run :: "run \<Rightarrow> docx_paragraph \<Rightarrow> docx_paragraph" where
  "add_run r p = p\<lparr>p_runs := p_runs p @ [r]\<rparr>"

text \<open>\<open>paragraph.text = s\<close>: the runs are replaced by one run, the formatting stays.\<close>

definition paragraph_set_text :: "string \<Rightarrow> docx_paragraph \<Rightarrow> exn + docx_paragraph" where
  "paragraph_set_text s p =
     (case text_run s of Inl e \<Rightarrow> Inl e | Inr r \<Rightarrow> Inr (p\<lparr>p_runs := [r]\<rparr>))"

definition empty_cell :: cell where
  "empty_cell = \<lparr>c_paragraphs = [empty_paragraph], c_width = None, c_tcPr = []\<rparr>"

text \<open>\<open>cell.text = s\<close>: the content becomes one paragraph holding one run.\<close>

definition cell_set_text :: "string \<Rightarrow> cell \<Rightarrow> exn + cell" where
  "cell_set_text s c =
     (case text_run s of
        Inl e \<Rightarrow> Inl e
      | Inr r \<Rightarrow> Inr (c\<lparr>c_paragraphs := [add_run r empty_paragraph]\<rparr>))"

text \<open>\<open>doc.add_table(rows, cols)\<close>: every cell starts with one empty paragraph.\<close>

definition add_table :: "nat \<Rightarrow> nat \<Rightarrow> table" where
  "add_table rows cols =
     \<lparr>t_rows = replicate rows (replicate cols empty_cell), t_style = None, t_autofit = None\<rparr>"

text \<open>
  Reading a cell back, as \<open>cell.text\<close> does: the paragraphs joined by newlines. A carriage
  return was stored as a line break and reads back as a newline.
\<close>

definition paragraph_text :: "docx_paragraph \<Rightarrow> string" where
  "paragraph_text p =
     map (\<lambda>c. if c = CHR 0x0D then CHR 0x0A else c) (concat (map r_text (p_runs p)))"

fun join_lines :: "string list \<Rightarrow> string" where
  "join_lines [] = []"
| "join_lines [s] = s"
| "join_lines (s # t # ts) = s @ CHR 0x0A # join_lines (t # ts)"

definition cell_text :: "cell \<Rightarrow> string" where
  "cell_text c = join_lines (map paragraph_text (c_paragraphs c))"

text \<open>
  \<open>cells[i]\<close> followed by updates of that cell: Python raises \<open>IndexError\<close> out of range.
  \<open>paragraphs[0]\<close> likewise.
\<close>

definition cell_upd :: "nat \<Rightarrow> (cell \<Rightarrow> exn + cell) \<Rightarrow> cell list \<Rightarrow> exn + cell list" where
  "cell_upd i f cells =
     (if i < length cells
      then (case f (cells ! i) of Inl e \<Rightarrow> Inl e | Inr c \<Rightarrow> Inr (cells[i := c]))
      else Inl IndexError)"

definition para0_upd :: "(docx_paragraph \<Rightarrow> exn + docx_paragraph) \<Rightarrow> cell \<Rightarrow> exn + cell" where
  "para0_upd f c =
     (case c_paragraphs c of
        [] \<Rightarrow> Inl IndexError
      | p # ps \<Rightarrow> (case f p of Inl e \<Rightarrow> Inl e | Inr p' \<Rightarrow> Inr (c\<lparr>c_paragraphs := p' # ps\<rparr>)))"

subsection \<open>\<open>set_cell_border\<close>\<close>

text \<open>
  \<open>kwargs\<close> is a dictionary from edge names to values; an edge is drawn when its value
  is truthy (present and not zero).
\<close>

definition border_element :: "string \<Rightarrow> oxml_element" where
  "border_element edge =
     \<lparr>e_tag = ''w:'' @ (''tc'' @ capitalize edge),
      e_attrs = [(''w:val'', ''single''), (''w:sz'', ''4''),
                 (''w:space'', ''0''), (''w:color'', ''000000'')]\<rparr>"

fun set_cell_border_edges :: "string list \<Rightarrow> (string \<rightharpoonup> nat) \<Rightarrow> oxml_element list \<Rightarrow> oxml_element list" where
  "set_cell_border_edges [] kwargs tcPr = tcPr"
| "set_cell_border_edges (edge # edges) kwargs tcPr =
     (case kwargs edge of
        None \<Rightarrow> set_cell_border_edges edges kwargs tcPr
      | Some edge_data \<Rightarrow>
          (if edge_data \<noteq> 0
           then set_cell_border_edges edges kwargs (tcPr @ [border_element edge])
           else set_cell_border_edges edges kwargs tcPr))"

definition set_cell_border :: "(string \<rightharpoonup> nat) \<Rightarrow> cell \<Rightarrow> cell" where
  "set_cell_border kwargs c =
     c\<lparr>c_tcPr := set_cell_border_edges [''top'', ''left'', ''bottom'', ''right''] kwargs (c_tcPr c)\<rparr>"

subsection \<open>The file system\<close>

datatype fdata = Bytes bytes | Docx document

record fs =
  files :: "string \<rightharpoonup> fdata"
  dirs :: "string set"

definition os_path_exists :: "fs \<Rightarrow> string \<Rightarrow> bool" where
  "os_path_exists s p = (files s p \<noteq> None \<or> p \<in> dirs s)"

text \<open>\<open>posixpath.join\<close> and \<open>posixpath.dirname\<close>.\<close>

definition os_path_join :: "string \<Rightarrow> string \<Rightarrow> string" where
  "os_path_join a b =
     (if startswith b ''/'' then b
      else if a = [] \<or> endswith a ''/'' then a @ b
      else a @ ''/'' @ b)"

definition os_path_dirname :: "string \<Rightarrow> string" where
  "os_path_dirname p =
     (let head = rev (dropWhile (\<lambda>c. c \<noteq> CHR ''/'') (rev p))
      in if head \<noteq> [] \<and> head \<noteq> replicate (length head) CHR ''/''
         then rev (dropWhile (\<lambda>c. c = CHR ''/'') (rev head))
         else head)"

definition os_path_basename :: "string \<Rightarrow> string" where
  "os_path_basename p = rev (takeWhile (\<lambda>c. c \<noteq> CHR ''/'') (rev p))"

text \<open>
  \<open>open(p, 'wb')\<close> and writing \<open>d\<close>. Python raises \<open>ValueError\<close> on a path with a NUL byte.
  The system call fails on a directory, when the parent directory does not exist, on an
  empty file name, on a file name of more than 255 bytes and on a path of 4096 bytes or
  more. \<open>open(p, 'rb')\<close> and reading: fails unless \<open>p\<close> is a file. \<open>os.remove(p)\<close> fails
  unless \<open>p\<close> is a file.
\<close>

definition write_file :: "fs \<Rightarrow> string \<Rightarrow> fdata \<Rightarrow> exn + fs" where
  "write_file s p d =
     (if CHR 0x00 \<in> set p then Inl ValueError
      else if p \<in> dirs s \<or> os_path_dirname p \<notin> dirs s
              \<or> os_path_basename p = [] \<or> 255 < length (os_path_basename p)
              \<or> 4096 \<le> length p
      then Inl (OSError p)
      else Inr (s\<lparr>files := (files s)(p \<mapsto> d)\<rparr>))"

definition read_file :: "fs \<Rightarrow> string \<Rightarrow> exn + fdata" where
  "read_file s p =
     (if p \<in> dirs s then Inl (OSError p)
      else (case files s p of None \<Rightarrow> Inl (OSError p) | Some d \<Rightarrow> Inr d))"

definition os_remove :: "fs \<Rightarrow> string \<Rightarrow> exn + fs" where
  "os_remove s p =
     (if p \<in> dirs s \<or> files s p = None then Inl (OSError p)
      else Inr (s\<lparr>files := (files s)(p := None)\<rparr>))"

subsection \<open>The libraries\<close>

text \<open>
  \<^item> \<open>qr_make_image url\<close>: \<open>QRCode(version=1, error_correction=ERROR_CORRECT_L,
    box_size=10, border=2)\<close>, \<open>add_data(url)\<close>, \<open>make(fit=True)\<close> and
    \<open>make_image(fill_color="black", back_color="white")\<close>; it raises when the data does
    not fit the largest symbol;
  \<^item> \<open>img_resize img w h\<close>: \<open>img.resize((w, h), Image.Resampling.LANCZOS)\<close>;
  \<^item> \<open>img_save_png img\<close>: \<open>img.save(..., format='PNG')\<close>, the bytes written;
  \<^item> \<open>pil_open b\<close>: \<open>Image.open\<close> on a file holding \<open>b\<close>;
  \<^item> \<open>docx_image_ok b\<close>: python-docx recognises \<open>b\<close> as an image it can embed.
\<close>

record 'img libs =
  qr_make_image :: "string \<Rightarrow> exn + 'img"
  img_resize :: "'img \<Rightarrow> nat \<Rightarrow> nat \<Rightarrow> 'img"
  img_save_png :: "'img \<Rightarrow> exn + bytes"
  pil_open :: "bytes \<Rightarrow> exn + 'img"
  docx_image_ok :: "bytes \<Rightarrow> bool"

subsection \<open>\<open>create_qr_code\<close>\<close>

definition create_qr_code :: "'img libs \<Rightarrow> string \<Rightarrow> nat \<Rightarrow> exn + bytes" where
  "create_qr_code lib url sz =
     (case qr_make_image lib url of
        Inl e \<Rightarrow> Inl e
      | Inr img \<Rightarrow> img_save_png lib (img_resize lib img sz sz))"

text \<open>\<open>run.add_picture(path, width=w)\<close>: the file is read and must be an image.\<close>

definition add_picture :: "'img libs \<Rightarrow> fs \<Rightarrow> string \<Rightarrow> length \<Rightarrow> run \<Rightarrow> exn + run" where
  "add_picture lib s path w r =
     (case read_file s path of
        Inl e \<Rightarrow> Inl e
      | Inr (Docx d) \<Rightarrow> Inl (LibraryError ''UnrecognizedImageError'')
      | Inr (Bytes b) \<Rightarrow>
          (if docx_image_ok lib b then Inr (r\<lparr>r_picture := Some (b, w)\<rparr>)
           else Inl (LibraryError ''UnrecognizedImageError'')))"


subsection \<open>The request models\<close>

record Experiment =
  title :: string
  date :: string
  github :: string

record RecordData =
  course_title :: string
  student_name :: string
  register_number :: string
  experiments :: "Experiment list"

text \<open>
  The request body before pydantic has read it: a field is \<open>None\<close> when the body does
  not have it. \<open>title\<close> and \<open>github\<close> are declared without a default and are required;
  \<open>date\<close> has the default \<open>""\<close>. The declarations say nothing else about the strings.
\<close>

record raw_Experiment =
  raw_title :: "string option"
  raw_date :: "string option"
  raw_github :: "string option"

record raw_RecordData =
  raw_course_title :: "string option"
  raw_student_name :: "string option"
  raw_register_number :: "string option"
  raw_experiments :: "raw_Experiment list option"

definition parse_Experiment :: "raw_Experiment \<Rightarrow> Experiment option" where
  "parse_Experiment r =
     (case raw_title r of
        None \<Rightarrow> None
      | Some t \<Rightarrow>
          (case raw_github r of
             None \<Rightarrow> None
           | Some g \<Rightarrow>
               Some \<lparr>title = t,
                     date = (case raw_date r of None \<Rightarrow> [] | Some d \<Rightarrow> d),
                     github = g\<rparr>))"

fun parse_experiments :: "raw_Experiment list \<Rightarrow> Experiment list option" where
  "parse_experiments [] = Some []"
| "parse_experiments (r # rs) =
     (case parse_Experiment r of
        None \<Rightarrow> None
      | Some e \<Rightarrow> (case parse_experiments rs of None \<Rightarrow> None | Some es \<Rightarrow> Some (e # es)))"

definition parse_RecordData :: "raw_RecordData \<Rightarrow> RecordData option" where
  "parse_RecordData r =
     (case raw_course_title r of
        None \<Rightarrow> None
      | Some c \<Rightarrow>
          (case raw_student_name r of
             None \<Rightarrow> None
           | Some n \<Rightarrow>
               (case raw_register_number r of
                  None \<Rightarrow> None
                | Some g \<Rightarrow>
                    (case raw_experiments r of
                       None \<Rightarrow> None
                     | Some rs \<Rightarrow>
                         (case parse_experiments rs of
                            None \<Rightarrow> None
                          | Some es \<Rightarrow>
                              Some \<lparr>course_title = c, student_name = n,
                                    register_number = g, experiments = es\<rparr>)))))"

subsection \<open>\<open>generate_docx\<close>: the logo and the title\<close>

definition set_margins :: "section_margins \<Rightarrow> section_margins" where
  "set_margins sec =
     sec\<lparr>top_margin := Some (Inches 0.5), bottom_margin := Some (Inches 1),
         left_margin := Some (Inches 1), right_margin := Some (Inches 1)\<rparr>"

definition logo_files :: "string list" where
  "logo_files = [''college_logo.png'', ''college_logo.jpg'', ''college_logo.jpeg'']"

text \<open>The loop over \<open>logo_files\<close> stops at the first file that exists.\<close>

fun find_logo :: "fs \<Rightarrow> string \<Rightarrow> string list \<Rightarrow> string option" where
  "find_logo s base_dir [] = None"
| "find_logo s base_dir (name # names) =
     (if os_path_exists s (os_path_join base_dir name)
      then Some (os_path_join base_dir name)
      else find_logo s base_dir names)"

text \<open>
  The blocks the logo contributes: the centred paragraph with the picture and, since
  \<open>logo_exists\<close> is then true, the empty paragraph after it.
\<close>

definition add_logo :: "'img libs \<Rightarrow> fs \<Rightarrow> string \<Rightarrow> exn + block list" where
  "add_logo lib s base_dir =
     (case find_logo s base_dir logo_files of
        None \<Rightarrow> Inr []
      | Some logo_path \<Rightarrow>
          (case add_picture lib s logo_path (Inches 7.0) empty_run of
             Inl e \<Rightarrow> Inl e
           | Inr r \<Rightarrow>
               Inr [Paragraph (add_run r (empty_paragraph\<lparr>p_alignment := Some CENTER\<rparr>)),
                    Paragraph empty_paragraph]))"

text \<open>The title: \<open>title.add_run(data.course_title)\<close> on the centred paragraph.\<close>

definition add_title :: "RecordData \<Rightarrow> exn + docx_paragraph" where
  "add_title data =
     (case text_run (course_title data) of
        Inl e \<Rightarrow> Inl e
      | Inr title_run \<Rightarrow>
          Inr (add_run (title_run\<lparr>r_bold := Some True, r_size := Some (Pt 14)\<rparr>)
                 (empty_paragraph\<lparr>p_alignment := Some CENTER\<rparr>)))"

subsection \<open>\<open>generate_docx\<close>: the experiment table\<close>

definition headers :: "string list" where
  "headers = [''Exp'', ''Date'', ''Name of The Experiment'', ''QR Code'', ''Mark'', ''Signature'']"

definition widths :: "length list" where
  "widths = [Inches 0.5, Inches 0.8, Inches 3.0, Inches 0.8, Inches 0.6, Inches 1.0]"

definition format_header_paragraph :: "docx_paragraph \<Rightarrow> docx_paragraph" where
  "format_header_paragraph p =
     p\<lparr>p_runs := map (\<lambda>r. r\<lparr>r_bold := Some True, r_size := Some (Pt 11)\<rparr>) (p_runs p),
       p_alignment := Some CENTER\<rparr>"

definition header_cell :: "string \<Rightarrow> cell \<Rightarrow> exn + cell" where
  "header_cell header c =
     (case cell_set_text header c of
        Inl e \<Rightarrow> Inl e
      | Inr c1 \<Rightarrow>
          Inr (set_cell_border
                 [''top'' \<mapsto> 1, ''bottom'' \<mapsto> 1, ''left'' \<mapsto> 1, ''right'' \<mapsto> 1]
                 (c1\<lparr>c_paragraphs := map format_header_paragraph (c_paragraphs c1)\<rparr>)))"

fun set_headers :: "nat \<Rightarrow> string list \<Rightarrow> cell list \<Rightarrow> exn + cell list" where
  "set_headers idx [] header_cells = Inr header_cells"
| "set_headers idx (header # hs) header_cells =
     (case cell_upd idx (header_cell header) header_cells of
        Inl e \<Rightarrow> Inl e
      | Inr cells' \<Rightarrow> set_headers (idx + 1) hs cells')"

text \<open>The inner loop \<open>for row in table.rows: row.cells[idx].width = width\<close>.\<close>

fun set_column_width :: "nat \<Rightarrow> length \<Rightarrow> cell list list \<Rightarrow> exn + cell list list" where
  "set_column_width idx w [] = Inr []"
| "set_column_width idx w (row # rows) =
     (case cell_upd idx (\<lambda>c. Inr (c\<lparr>c_width := Some w\<rparr>)) row of
        Inl e \<Rightarrow> Inl e
      | Inr row' \<Rightarrow>
          (case set_column_width idx w rows of
             Inl e \<Rightarrow> Inl e
           | Inr rows' \<Rightarrow> Inr (row' # rows')))"

fun set_widths :: "nat \<Rightarrow> length list \<Rightarrow> cell list list \<Rightarrow> exn + cell list list" where
  "set_widths idx [] rows = Inr rows"
| "set_widths idx (w # ws) rows =
     (case set_column_width idx w rows of
        Inl e \<Rightarrow> Inl e
      | Inr rows' \<Rightarrow> set_widths (idx + 1) ws rows')"

definition qr_filename :: "nat \<Rightarrow> string" where
  "qr_filename idx = ''/tmp/qr_'' @ str_nat idx @ ''.png''"

definition seq_cell :: "nat \<Rightarrow> cell \<Rightarrow> exn + cell" where
  "seq_cell idx c =
     (case cell_set_text (zfill 2 (str_nat (idx + 1))) c of
        Inl e \<Rightarrow> Inl e
      | Inr c1 \<Rightarrow> para0_upd (\<lambda>p. Inr (p\<lparr>p_alignment := Some CENTER\<rparr>)) c1)"

definition date_cell :: "Experiment \<Rightarrow> cell \<Rightarrow> exn + cell" where
  "date_cell expt c = cell_set_text (if date expt \<noteq> [] then date expt else []) c"

definition link_format :: "run \<Rightarrow> run" where
  "link_format r =
     r\<lparr>r_size := Some (Pt 9), r_color := Some (0, 0, 255), r_underline := Some True\<rparr>"

definition title_cell :: "Experiment \<Rightarrow> cell \<Rightarrow> exn + cell" where
  "title_cell expt c =
     para0_upd
       (\<lambda>p. case paragraph_set_text (title expt) p of
               Inl e \<Rightarrow> Inl e
             | Inr title_para \<Rightarrow>
                 (case text_run [CHR 0x0A, CHR 0x0A] of
                    Inl e \<Rightarrow> Inl e
                  | Inr blank_run \<Rightarrow>
                      (case text_run (github expt) of
                         Inl e \<Rightarrow> Inl e
                       | Inr link_run \<Rightarrow>
                           Inr (add_run (link_format link_run)
                                  (add_run blank_run title_para)))))
       c"

definition qr_cell :: "'img libs \<Rightarrow> fs \<Rightarrow> string \<Rightarrow> cell \<Rightarrow> exn + cell" where
  "qr_cell lib s path c =
     (case cell_set_text [] c of
        Inl e \<Rightarrow> Inl e
      | Inr c1 \<Rightarrow>
          para0_upd
            (\<lambda>p. case add_picture lib s path (Inches 0.75) empty_run of
                    Inl e \<Rightarrow> Inl e
                  | Inr r \<Rightarrow> Inr (add_run r (p\<lparr>p_alignment := Some CENTER\<rparr>)))
            c1)"

definition blank_cell :: "cell \<Rightarrow> exn + cell" where
  "blank_cell c = cell_set_text [] c"

text \<open>
  One pass of the loop over the experiments, on the cells of its row. The file system
  comes back on every path: the image file is written before it is embedded.
\<close>

definition fill_row :: "'img libs \<Rightarrow> fs \<Rightarrow> nat \<Rightarrow> Experiment \<Rightarrow> cell list \<Rightarrow> (exn + cell list) \<times> fs" where
  "fill_row lib s idx expt cells =
     (case cell_upd 0 (seq_cell idx) cells of
        Inl e \<Rightarrow> (Inl e, s)
      | Inr cells1 \<Rightarrow>
     (case cell_upd 1 (date_cell expt) cells1 of
        Inl e \<Rightarrow> (Inl e, s)
      | Inr cells2 \<Rightarrow>
     (case cell_upd 2 (title_cell expt) cells2 of
        Inl e \<Rightarrow> (Inl e, s)
      | Inr cells3 \<Rightarrow>
     (case create_qr_code lib (github expt) 150 of
        Inl e \<Rightarrow> (Inl e, s)
      | Inr qr_img_data \<Rightarrow>
     (case write_file s (qr_filename idx) (Bytes qr_img_data) of
        Inl e \<Rightarrow> (Inl e, s)
      | Inr s1 \<Rightarrow>
     (case cell_upd 3 (qr_cell lib s1 (qr_filename idx)) cells3 of
        Inl e \<Rightarrow> (Inl e, s1)
      | Inr cells4 \<Rightarrow>
     (case cell_upd 4 blank_cell cells4 of
        Inl e \<Rightarrow> (Inl e, s1)
      | Inr cells5 \<Rightarrow>
     (case cell_upd 5 blank_cell cells5 of
        Inl e \<Rightarrow> (Inl e, s1)
      | Inr cells6 \<Rightarrow> (Inr cells6, s1)))))))))"

text \<open>
  \<open>for idx, exp in enumerate(data.experiments)\<close>, with the rows of the table, the list
  \<open>qr_images\<close> and the file system as the loop's state.
\<close>

fun fill_rows :: "'img libs \<Rightarrow> nat \<Rightarrow> Experiment list \<Rightarrow> cell list list \<Rightarrow> string list \<Rightarrow> fs
    \<Rightarrow> (exn + cell list list \<times> string list) \<times> fs" where
  "fill_rows lib idx [] rows qr_images s = (Inr (rows, qr_images), s)"
| "fill_rows lib idx (expt # exps) rows qr_images s =
     (if idx + 1 < length rows
      then (case fill_row lib s idx expt (rows ! (idx + 1)) of
              (Inl e, s') \<Rightarrow> (Inl e, s')
            | (Inr row', s') \<Rightarrow>
                fill_rows lib (idx + 1) exps (rows[idx + 1 := row'])
                  (qr_images @ [qr_filename idx]) s')
      else (Inl IndexError, s))"

definition build_table :: "'img libs \<Rightarrow> fs \<Rightarrow> Experiment list \<Rightarrow> (exn + table \<times> string list) \<times> fs" where
  "build_table lib s exps =
     (let table0 = (add_table (length exps + 1) 6)\<lparr>t_style := Some ''Table Grid''\<rparr>
      in (case t_rows table0 of
            [] \<Rightarrow> (Inl IndexError, s)
          | header_cells # rest \<Rightarrow>
              (case set_headers 0 headers header_cells of
                 Inl e \<Rightarrow> (Inl e, s)
               | Inr header_cells' \<Rightarrow>
                   (case set_widths 0 widths (header_cells' # rest) of
                      Inl e \<Rightarrow> (Inl e, s)
                    | Inr rows \<Rightarrow>
                        (case fill_rows lib 0 exps rows [] s of
                           (Inl e, s') \<Rightarrow> (Inl e, s')
                         | (Inr (rows', qr_images), s') \<Rightarrow>
                             (Inr (table0\<lparr>t_rows := rows'\<rparr>, qr_images), s'))))))"

subsection \<open>\<open>generate_docx\<close>: the confirmation and the footer table\<close>

definition add_confirmation :: "exn + docx_paragraph" where
  "add_confirmation =
     (case text_run
             ''I confirm that the experiments and GitHub links provided are entirely my own work.'' of
        Inl e \<Rightarrow> Inl e
      | Inr conf_run \<Rightarrow> Inr (add_run (conf_run\<lparr>r_bold := Some True\<rparr>) empty_paragraph))"

definition build_details :: "RecordData \<Rightarrow> exn + table" where
  "build_details data =
     (let details_table = (add_table 2 2)\<lparr>t_autofit := Some False\<rparr>
      in (case t_rows details_table of
            [] \<Rightarrow> Inl IndexError
          | row0 # rest \<Rightarrow>
              (case cell_upd 0
                      (para0_upd (\<lambda>p.
                         case text_run (''Name: '' @ student_name data) of
                           Inl e \<Rightarrow> Inl e
                         | Inr r \<Rightarrow> Inr (add_run (r\<lparr>r_size := Some (Pt 11)\<rparr>) p)))
                      row0 of
                 Inl e \<Rightarrow> Inl e
               | Inr row1 \<Rightarrow>
                   (case cell_upd 1
                           (para0_upd (\<lambda>p.
                              case text_run (''Register Number: '' @ register_number data) of
                                Inl e \<Rightarrow> Inl e
                              | Inr r \<Rightarrow>
                                  Inr ((add_run (r\<lparr>r_size := Some (Pt 11)\<rparr>) p)
                                         \<lparr>p_alignment := Some RIGHT\<rparr>)))
                           row1 of
                      Inl e \<Rightarrow> Inl e
                    | Inr row2 \<Rightarrow> Inr (details_table\<lparr>t_rows := row2 # rest\<rparr>)))))"

subsection \<open>\<open>generate_docx\<close>: saving, the response and the clean-up\<close>

record FileResponse =
  resp_path :: string
  resp_filename :: string
  resp_media_type :: string

definition output_filename :: "RecordData \<Rightarrow> string" where
  "output_filename data = ''/tmp/'' @ register_number data @ ''_Lab_Record.docx''"

text \<open>\<open>for qr_file in qr_images: if os.path.exists(qr_file): os.remove(qr_file)\<close>.\<close>

fun remove_qr_images :: "string list \<Rightarrow> fs \<Rightarrow> (exn + unit) \<times> fs" where
  "remove_qr_images [] s = (Inr (), s)"
| "remove_qr_images (qr_file # rest) s =
     (if os_path_exists s qr_file
      then (case os_remove s qr_file of
              Inl e \<Rightarrow> (Inl e, s)
            | Inr s' \<Rightarrow> remove_qr_images rest s')
      else remove_qr_images rest s)"

text \<open>The body of the \<open>try\<close> block.\<close>

definition generate_docx_try :: "'img libs \<Rightarrow> string \<Rightarrow> fs \<Rightarrow> RecordData \<Rightarrow> (exn + FileResponse) \<times> fs" where
  "generate_docx_try lib base_dir s data =
     (let doc = Document\<lparr>d_sections := map set_margins (d_sections Document)\<rparr>
      in (case add_logo lib s base_dir of
            Inl e \<Rightarrow> (Inl e, s)
          | Inr logo_blocks \<Rightarrow>
     (case add_title data of
            Inl e \<Rightarrow> (Inl e, s)
          | Inr title_para \<Rightarrow>
     (case build_table lib s (experiments data) of
            (Inl e, s1) \<Rightarrow> (Inl e, s1)
          | (Inr (tbl, qr_images), s1) \<Rightarrow>
     (case add_confirmation of
            Inl e \<Rightarrow> (Inl e, s1)
          | Inr confirmation \<Rightarrow>
     (case build_details data of
            Inl e \<Rightarrow> (Inl e, s1)
          | Inr details_table \<Rightarrow>
     (case write_file s1 (output_filename data)
             (Docx (doc\<lparr>d_body := d_body doc @ logo_blocks @
                [Paragraph title_para, Paragraph empty_paragraph, Table tbl,
                 Paragraph empty_paragraph, Paragraph empty_paragraph,
                 Paragraph confirmation, Paragraph empty_paragraph,
                 Table details_table]\<rparr>)) of
            Inl e \<Rightarrow> (Inl e, s1)
          | Inr s2 \<Rightarrow>
     (case remove_qr_images qr_images s2 of
            (Inl e, s3) \<Rightarrow> (Inl e, s3)
          | (Inr u, s3) \<Rightarrow>
              (Inr \<lparr>resp_path = output_filename data,
                    resp_filename = output_filename data,
                    resp_media_type =
                      ''application/vnd.openxmlformats-officedocument.wordprocessingml.document''\<rparr>,
               s3)))))))))"

text \<open>The handler: \<open>except Exception as e: raise HTTPException(500, f"Error: {str(e)}")\<close>.\<close>

definition generate_docx :: "'img libs \<Rightarrow> string \<Rightarrow> fs \<Rightarrow> RecordData \<Rightarrow> (exn + FileResponse) \<times> fs" where
  "generate_docx lib base_dir s data =
     (case generate_docx_try lib base_dir s data of
        (Inl e, s') \<Rightarrow> (Inl (HTTPException 500 (Formatted ''Error: '' e)), s')
      | (Inr response, s') \<Rightarrow> (Inr response, s'))"

text \<open>
  The route \<open>POST /generate-docx\<close>: FastAPI reads the body into \<open>RecordData\<close> and calls
  the handler; a body that does not fit never reaches it.
\<close>

definition post_generate_docx :: "'img libs \<Rightarrow> string \<Rightarrow> fs \<Rightarrow> raw_RecordData \<Rightarrow> (exn + FileResponse) \<times> fs" where
  "post_generate_docx lib base_dir s raw =
     (case parse_RecordData raw of
        None \<Rightarrow> (Inl RequestValidationError, s)
      | Some data \<Rightarrow> generate_docx lib base_dir s data)"

subsection \<open>\<open>upload_logo\<close>\<close>

record UploadFile =
  content_type :: "string option"
  filename :: "string option"
  file_bytes :: bytes

record upload_result =
  message :: string
  saved_filename :: string

text \<open>
  The body of the \<open>try\<close> block. \<open>content_type\<close> and \<open>filename\<close> may be \<open>None\<close>, and a
  method call on \<open>None\<close> raises \<open>AttributeError\<close>. \<open>file_bytes\<close> is what
  \<open>file.file\<close> holds.
\<close>

definition upload_logo_try :: "'img libs \<Rightarrow> string \<Rightarrow> fs \<Rightarrow> UploadFile \<Rightarrow> (exn + upload_result) \<times> fs" where
  "upload_logo_try lib base_dir s f =
     (case content_type f of
        None \<Rightarrow> (Inl AttributeError, s)
      | Some ct \<Rightarrow>
     (if \<not> startswith ct ''image/''
      then (Inl (HTTPException 400 (Literal ''File must be an image'')), s)
      else
     (case filename f of
        None \<Rightarrow> (Inl AttributeError, s)
      | Some fname \<Rightarrow>
     (let ext = lower (split_last CHR ''.'' fname)
      in if ext \<notin> set [''png'', ''jpg'', ''jpeg'']
         then (Inl (HTTPException 400 (Literal ''Only PNG, JPG, JPEG files allowed'')), s)
         else
     (let logo_path = os_path_join base_dir (''college_logo.'' @ ext)
      in (case write_file s logo_path (Bytes (file_bytes f)) of
            Inl e \<Rightarrow> (Inl e, s)
          | Inr s1 \<Rightarrow>
              (if ext \<in> set [''jpg'', ''jpeg'']
               then (case read_file s1 logo_path of
                       Inl e \<Rightarrow> (Inl e, s1)
                     | Inr (Docx d) \<Rightarrow> (Inl (LibraryError ''UnidentifiedImageError''), s1)
                     | Inr (Bytes b) \<Rightarrow>
                    (case pil_open lib b of
                       Inl e \<Rightarrow> (Inl e, s1)
                     | Inr img \<Rightarrow>
                    (case img_save_png lib img of
                       Inl e \<Rightarrow> (Inl e, s1)
                     | Inr png \<Rightarrow>
                    (case write_file s1 (os_path_join base_dir ''college_logo.png'') (Bytes png) of
                       Inl e \<Rightarrow> (Inl e, s1)
                     | Inr s2 \<Rightarrow>
                    (case os_remove s2 logo_path of
                       Inl e \<Rightarrow> (Inl e, s2)
                     | Inr s3 \<Rightarrow>
                         (Inr \<lparr>message = ''Logo uploaded successfully'',
                               saved_filename = os_path_join base_dir ''college_logo.png''\<rparr>,
                          s3))))))
               else (Inr \<lparr>message = ''Logo uploaded successfully'',
                           saved_filename = logo_path\<rparr>, s1))))))))"

text \<open>
  The handler. \<open>HTTPException\<close> is a subclass of \<open>Exception\<close>, so the clause
  \<open>except Exception as e\<close> also receives the two exceptions of status 400 raised above.
\<close>

definition upload_logo :: "'img libs \<Rightarrow> string \<Rightarrow> fs \<Rightarrow> UploadFile \<Rightarrow> (exn + upload_result) \<times> fs" where
  "upload_logo lib base_dir s f =
     (case upload_logo_try lib base_dir s f of
        (Inl e, s') \<Rightarrow> (Inl (HTTPException 500 (Formatted ''Error uploading logo: '' e)), s')
      | (Inr r, s') \<Rightarrow> (Inr r, s'))"

text \<open>The status code of the response FastAPI sends.\<close>

fun status_code :: "exn + 'a \<Rightarrow> nat" where
  "status_code (Inr r) = 200"
| "status_code (Inl (HTTPException code d)) = code"
| "status_code (Inl RequestValidationError) = 422"
| "status_code (Inl e) = 500"

section \<open>What the loops compute\<close>

text \<open>
  The rows, tables and document that the loops of \<open>generate_docx\<close> build, written out.
  The lemmas of the next section prove that the handler produces exactly these.
\<close>

definition header_row :: "cell list" where
  "header_row =
     map (\<lambda>(h, w).
            \<lparr>c_paragraphs =
               [\<lparr>p_runs = [(new_run h)\<lparr>r_bold := Some True, r_size := Some (Pt 11)\<rparr>],
                 p_alignment = Some CENTER\<rparr>],
             c_width = Some w,
             c_tcPr = map border_element [''top'', ''left'', ''bottom'', ''right'']\<rparr>)
         (zip headers widths)"

text \<open>The header cells after the loop over \<open>headers\<close>, before the widths are set.\<close>

definition header_cells0 :: "cell list" where
  "header_cells0 =
     map (\<lambda>h.
            \<lparr>c_paragraphs =
               [\<lparr>p_runs = [(new_run h)\<lparr>r_bold := Some True, r_size := Some (Pt 11)\<rparr>],
                 p_alignment = Some CENTER\<rparr>],
             c_width = None,
             c_tcPr = map border_element [''top'', ''left'', ''bottom'', ''right'']\<rparr>)
         headers"

text \<open>A row below the header after the loop over \<open>widths\<close>, before it is filled.\<close>

definition body_row :: "cell list" where
  "body_row = map (\<lambda>w. empty_cell\<lparr>c_width := Some w\<rparr>) widths"

text \<open>The row of experiment \<open>idx\<close> once filled, \<open>png\<close> being the bytes of its code image.\<close>

definition filled_row :: "nat \<Rightarrow> Experiment \<Rightarrow> bytes \<Rightarrow> cell list" where
  "filled_row idx expt png =
     [\<lparr>c_paragraphs = [\<lparr>p_runs = [new_run (zfill 2 (str_nat (idx + 1)))],
                        p_alignment = Some CENTER\<rparr>],
       c_width = Some (Inches 0.5), c_tcPr = []\<rparr>,
      \<lparr>c_paragraphs = [\<lparr>p_runs = [new_run (date expt)], p_alignment = None\<rparr>],
       c_width = Some (Inches 0.8), c_tcPr = []\<rparr>,
      \<lparr>c_paragraphs = [\<lparr>p_runs = [new_run (title expt), new_run [CHR 0x0A, CHR 0x0A],
                                   link_format (new_run (github expt))],
                        p_alignment = None\<rparr>],
       c_width = Some (Inches 3.0), c_tcPr = []\<rparr>,
      \<lparr>c_paragraphs = [\<lparr>p_runs = [new_run [], empty_run\<lparr>r_picture := Some (png, Inches 0.75)\<rparr>],
                        p_alignment = Some CENTER\<rparr>],
       c_width = Some (Inches 0.8), c_tcPr = []\<rparr>,
      \<lparr>c_paragraphs = [\<lparr>p_runs = [new_run []], p_alignment = None\<rparr>],
       c_width = Some (Inches 0.6), c_tcPr = []\<rparr>,
      \<lparr>c_paragraphs = [\<lparr>p_runs = [new_run []], p_alignment = None\<rparr>],
       c_width = Some (Inches 1.0), c_tcPr = []\<rparr>]"

text \<open>\<open>open(p, 'wb')\<close> succeeds, and the exception it raises when it does not.\<close>

definition can_write :: "fs \<Rightarrow> string \<Rightarrow> bool" where
  "can_write s p =
     (CHR 0x00 \<notin> set p \<and> p \<notin> dirs s \<and> os_path_dirname p \<in> dirs s
      \<and> os_path_basename p \<noteq> [] \<and> length (os_path_basename p) \<le> 255
      \<and> length p < 4096)"

definition write_error :: "string \<Rightarrow> exn" where
  "write_error p = (if CHR 0x00 \<in> set p then ValueError else OSError p)"

text \<open>
  The code image of an experiment, and whether its row can be filled: its three texts are
  XML compatible, the generator returns an image and python-docx accepts it.
\<close>

definition png_of :: "'img libs \<Rightarrow> Experiment \<Rightarrow> bytes" where
  "png_of lib expt = (case create_qr_code lib (github expt) 150 of Inl e \<Rightarrow> [] | Inr png \<Rightarrow> png)"

definition row_ok :: "'img libs \<Rightarrow> Experiment \<Rightarrow> bool" where
  "row_ok lib expt =
     (xml_compatible (date expt) \<and> xml_compatible (title expt) \<and> xml_compatible (github expt)
      \<and> (case create_qr_code lib (github expt) 150 of
             Inl e \<Rightarrow> False
           | Inr png \<Rightarrow> docx_image_ok lib png))"

fun filled_rows :: "'img libs \<Rightarrow> nat \<Rightarrow> Experiment list \<Rightarrow> cell list list" where
  "filled_rows lib idx [] = []"
| "filled_rows lib idx (expt # exps) =
     filled_row idx expt (png_of lib expt) # filled_rows lib (idx + 1) exps"

definition experiment_table :: "'img libs \<Rightarrow> Experiment list \<Rightarrow> table" where
  "experiment_table lib exps =
     \<lparr>t_rows = header_row # filled_rows lib 0 exps,
      t_style = Some ''Table Grid'', t_autofit = None\<rparr>"

definition title_paragraph :: "RecordData \<Rightarrow> docx_paragraph" where
  "title_paragraph data =
     \<lparr>p_runs = [(new_run (course_title data))\<lparr>r_bold := Some True, r_size := Some (Pt 14)\<rparr>],
      p_alignment = Some CENTER\<rparr>"

definition confirmation_paragraph :: docx_paragraph where
  "confirmation_paragraph =
     \<lparr>p_runs =
        [(new_run ''I confirm that the experiments and GitHub links provided are entirely my own work.'')
           \<lparr>r_bold := Some True\<rparr>],
      p_alignment = None\<rparr>"

text \<open>The three texts of a record that the handler writes outside the experiment table.\<close>

definition record_text_ok :: "RecordData \<Rightarrow> bool" where
  "record_text_ok data =
     (xml_compatible (course_title data) \<and> xml_compatible (student_name data)
      \<and> xml_compatible (register_number data))"

definition details_table_of :: "RecordData \<Rightarrow> table" where
  "details_table_of data =
     \<lparr>t_rows =
        [[\<lparr>c_paragraphs =
             [\<lparr>p_runs = [(new_run (''Name: '' @ student_name data))\<lparr>r_size := Some (Pt 11)\<rparr>],
               p_alignment = None\<rparr>],
           c_width = None, c_tcPr = []\<rparr>,
          \<lparr>c_paragraphs =
             [\<lparr>p_runs = [(new_run (''Register Number: '' @ register_number data))
                            \<lparr>r_size := Some (Pt 11)\<rparr>],
               p_alignment = Some RIGHT\<rparr>],
           c_width = None, c_tcPr = []\<rparr>],
         [empty_cell, empty_cell]],
      t_style = None, t_autofit = Some False\<rparr>"

definition document_of :: "'img libs \<Rightarrow> RecordData \<Rightarrow> block list \<Rightarrow> document" where
  "document_of lib data logo_blocks =
     \<lparr>d_sections = [\<lparr>top_margin = Some (Inches 0.5), bottom_margin = Some (Inches 1),
                      left_margin = Some (Inches 1), right_margin = Some (Inches 1)\<rparr>],
      d_body = logo_blocks @
        [Paragraph (title_paragraph data), Paragraph empty_paragraph,
         Table (experiment_table lib (experiments data)),
         Paragraph empty_paragraph, Paragraph empty_paragraph,
         Paragraph confirmation_paragraph, Paragraph empty_paragraph,
         Table (details_table_of data)]\<rparr>"

definition the_response :: "RecordData \<Rightarrow> FileResponse" where
  "the_response data =
     \<lparr>resp_path = output_filename data, resp_filename = output_filename data,
      resp_media_type =
        ''application/vnd.openxmlformats-officedocument.wordprocessingml.document''\<rparr>"

section \<open>Reading a document and a request\<close>

text \<open>The tables of a document body, in order (\<open>doc.tables\<close>).\<close>

fun doc_tables :: "block list \<Rightarrow> table list" where
  "doc_tables [] = []"
| "doc_tables (Paragraph p # bs) = doc_tables bs"
| "doc_tables (Table t # bs) = t # doc_tables bs"

text \<open>The pictures embedded in a cell, with their display widths.\<close>

definition cell_pictures :: "cell \<Rightarrow> (bytes \<times> length) list" where
  "cell_pictures c = concat (map (\<lambda>p. List.map_filter r_picture (p_runs p)) (c_paragraphs c))"

text \<open>\<open>int(s)\<close> on a string of decimal digits.\<close>

definition digit_value :: "char \<Rightarrow> nat" where
  "digit_value c = of_char c - 48"

definition int_of_str :: "string \<Rightarrow> nat" where
  "int_of_str s = foldl (\<lambda>a c. 10 * a + digit_value c) 0 s"

text \<open>
  The variable \<open>logo_exists\<close> of \<open>generate_docx\<close>, and the condition under which the
  logo step raises nothing: no logo file, or a file that python-docx can embed.
\<close>

definition logo_exists :: "fs \<Rightarrow> string \<Rightarrow> bool" where
  "logo_exists s base_dir = (find_logo s base_dir logo_files \<noteq> None)"

definition logo_usable :: "'img libs \<Rightarrow> fs \<Rightarrow> string \<Rightarrow> bool" where
  "logo_usable lib s base_dir =
     (case find_logo s base_dir logo_files of
        None \<Rightarrow> True
      | Some p \<Rightarrow>
          (case read_file s p of
             Inl e \<Rightarrow> False
           | Inr (Docx d) \<Rightarrow> False
           | Inr (Bytes b) \<Rightarrow> docx_image_ok lib b))"

text \<open>
  The structure of a document: every element, text and attribute, with the bytes of the
  embedded pictures left out.
\<close>

definition run_skeleton :: "run \<Rightarrow> run" where
  "run_skeleton r = r\<lparr>r_picture := map_option (\<lambda>(b, w). ([], w)) (r_picture r)\<rparr>"

definition paragraph_skeleton :: "docx_paragraph \<Rightarrow> docx_paragraph" where
  "paragraph_skeleton p = p\<lparr>p_runs := map run_skeleton (p_runs p)\<rparr>"

definition cell_skeleton :: "cell \<Rightarrow> cell" where
  "cell_skeleton c = c\<lparr>c_paragraphs := map paragraph_skeleton (c_paragraphs c)\<rparr>"

definition table_skeleton :: "table \<Rightarrow> table" where
  "table_skeleton t = t\<lparr>t_rows := map (map cell_skeleton) (t_rows t)\<rparr>"

fun block_skeleton :: "block \<Rightarrow> block" where
  "block_skeleton (Paragraph p) = Paragraph (paragraph_skeleton p)"
| "block_skeleton (Table t) = Table (table_skeleton t)"

definition skeleton :: "document \<Rightarrow> document" where
  "skeleton d = d\<lparr>d_body := map block_skeleton (d_body d)\<rparr>"

text \<open>The two rejections of \<open>upload_logo\<close>, as conditions on the uploaded file.\<close>

definition not_image :: "UploadFile \<Rightarrow> bool" where
  "not_image f = (case content_type f of None \<Rightarrow> False | Some ct \<Rightarrow> \<not> startswith ct ''image/'')"

definition bad_extension :: "UploadFile \<Rightarrow> bool" where
  "bad_extension f =
     (case filename f of
        None \<Rightarrow> False
      | Some fname \<Rightarrow> lower (split_last CHR ''.'' fname) \<notin> set [''png'', ''jpg'', ''jpeg''])"

section \<open>Example inputs\<close>

text \<open>
  A library in which an image is the string it encodes, with the capacity of the largest
  symbol at error correction level L, and one whose generator rejects the empty string.
\<close>

definition demo_libs :: "string libs" where
  "demo_libs =
     \<lparr>qr_make_image = (\<lambda>url. if length url \<le> 2953 then Inr url
                               else Inl (LibraryError ''DataOverflowError'')),
      img_resize = (\<lambda>img w h. img),
      img_save_png = (\<lambda>img. Inr (''PNG:'' @ img)),
      pil_open = (\<lambda>b. Inr b),
      docx_image_ok = (\<lambda>b. True)\<rparr>"

definition strict_libs :: "string libs" where
  "strict_libs =
     demo_libs\<lparr>qr_make_image := (\<lambda>url. if url = [] then Inl (LibraryError ''empty data'')
                                         else Inr url)\<rparr>"

definition demo_fs :: fs where
  "demo_fs = \<lparr>files = Map.empty, dirs = {''/tmp'', ''/app''}\<rparr>"

definition png_logo_fs :: fs where
  "png_logo_fs = \<lparr>files = [''/app/college_logo.png'' \<mapsto> Bytes ''first logo''],
                   dirs = {''/tmp'', ''/app''}\<rparr>"

definition jpg_logo_fs :: fs where
  "jpg_logo_fs = \<lparr>files = [''/app/college_logo.jpg'' \<mapsto> Bytes ''second logo''],
                   dirs = {''/tmp'', ''/app''}\<rparr>"

definition nested_fs :: fs where
  "nested_fs = \<lparr>files = Map.empty, dirs = {''/tmp'', ''/tmp/a'', ''/app''}\<rparr>"

definition demo_data :: RecordData where
  "demo_data =
     \<lparr>course_title = ''Intro to Systems'', student_name = ''Jane Doe'',
      register_number = ''RA001'',
      experiments = [\<lparr>title = ''Exp1'', date = ''2024-01-01'',
                       github = ''https://github.com/x/y''\<rparr>]\<rparr>"

definition empty_data :: RecordData where
  "empty_data = demo_data\<lparr>experiments := []\<rparr>"

definition control_data :: RecordData where
  "control_data = empty_data\<lparr>course_title := ''A'' @ [CHR 0x01] @ ''B''\<rparr>"

definition long_data :: RecordData where
  "long_data = empty_data\<lparr>register_number := replicate 300 CHR ''R''\<rparr>"

definition slash_data :: RecordData where
  "slash_data = demo_data\<lparr>register_number := ''a/b''\<rparr>"

definition empty_url_data :: RecordData where
  "empty_url_data =
     demo_data\<lparr>experiments := [\<lparr>title = ''Exp1'', date = [], github = []\<rparr>]\<rparr>"

definition empty_url_request :: raw_RecordData where
  "empty_url_request =
     \<lparr>raw_course_title = Some ''Intro to Systems'', raw_student_name = Some ''Jane Doe'',
      raw_register_number = Some ''RA001'',
      raw_experiments = Some [\<lparr>raw_title = Some ''Exp1'', raw_date = None,
                                raw_github = Some []\<rparr>]\<rparr>"

definition text_upload :: UploadFile where
  "text_upload = \<lparr>content_type = Some ''text/plain'', filename = Some ''notes.txt'',
                   file_bytes = ''hello''\<rparr>"

definition gif_upload :: UploadFile where
  "gif_upload = \<lparr>content_type = Some ''image/gif'', filename = Some ''logo.GIF'',
                  file_bytes = ''GIF89a''\<rparr>"

section \<open>The handler, characterised\<close>

subsection \<open>Texts that are XML compatible\<close>

lemma ascii_not_forbidden:
  assumes "(of_char a :: nat) < 128"
  shows "\<not> forbidden3 a b c"
proof -
  have b: "(of_char b :: nat) < 256" and c: "(of_char c :: nat) < 256" by simp_all
  have "((of_char a :: nat) * 256 + of_char b) * 256 + of_char c
          = of_char a * 65536 + of_char b * 256 + of_char c"
    by simp
  then have "((of_char a :: nat) * 256 + of_char b) * 256 + of_char c < 0xEDA080"
    using assms b c by linarith
  then show ?thesis
    by (auto simp: forbidden3_def Let_def)
qed

lemma xml_compatible_ascii_Cons:
  "(of_char a :: nat) < 128 \<Longrightarrow> xml_char_ok a \<Longrightarrow> xml_compatible (a # s) = xml_compatible s"
  by (cases s rule: no_forbidden3.cases) (auto simp: xml_compatible_def ascii_not_forbidden)

lemma xml_compatible_ascii_append:
  "list_all (\<lambda>c. (of_char c :: nat) < 128 \<and> xml_char_ok c) s \<Longrightarrow>
   xml_compatible (s @ t) = xml_compatible t"
  by (induction s) (simp_all add: xml_compatible_ascii_Cons)

lemma xml_compatible_Nil: "xml_compatible []"
  by (simp add: xml_compatible_def)

lemma xml_compatible_ascii:
  "list_all (\<lambda>c. (of_char c :: nat) < 128 \<and> xml_char_ok c) s \<Longrightarrow> xml_compatible s"
  using xml_compatible_ascii_append[of s "[]"] by (simp add: xml_compatible_Nil)

lemma digit_in_digits: "d < 10 \<Longrightarrow> digit d \<in> set ''0123456789''"
  unfolding digit_def by (rule nth_mem) simp

lemma str_nat_digits: "set (str_nat n) \<subseteq> set ''0123456789''"
proof (induction n rule: str_nat.induct)
  case (1 n)
  show ?case
  proof (cases "n < 10")
    case True
    then show ?thesis
      using digit_in_digits[of n] by (subst str_nat.simps) simp
  next
    case False
    with 1 have "set (str_nat (n div 10)) \<subseteq> set ''0123456789''" by simp
    moreover have "digit (n mod 10) \<in> set ''0123456789''"
      by (rule digit_in_digits) simp
    ultimately show ?thesis
      using False by (subst str_nat.simps) simp
  qed
qed

lemma zfill_set: "set (zfill w s) \<subseteq> insert CHR ''0'' (set s)"
  by (auto simp: zfill_def split: list.splits if_splits)

lemma seq_text_digits: "set (zfill 2 (str_nat n)) \<subseteq> set ''0123456789''"
  using zfill_set[of 2 "str_nat n"] str_nat_digits[of n] by auto

lemma digits_xml_compatible: "set s \<subseteq> set ''0123456789'' \<Longrightarrow> xml_compatible s"
proof (rule xml_compatible_ascii)
  assume a: "set s \<subseteq> set ''0123456789''"
  have "(of_char c :: nat) < 128 \<and> xml_char_ok c" if "c \<in> set ''0123456789''" for c
    using that by (auto simp: xml_char_ok_def)
  with a show "list_all (\<lambda>c. (of_char c :: nat) < 128 \<and> xml_char_ok c) s"
    by (auto simp: list_all_iff)
qed

lemma digits_no_carriage_return:
  "set s \<subseteq> set ''0123456789'' \<Longrightarrow> map (\<lambda>c. if c = CHR 0x0D then CHR 0x0A else c) s = s"
  by (rule map_idI) auto

lemma seq_text_ok: "xml_compatible (zfill 2 (str_nat n))"
  by (rule digits_xml_compatible) (rule seq_text_digits)

lemma text_run_eq:
  "text_run s = (if xml_compatible s then Inr (new_run s) else Inl ValueError)"
  by (simp add: text_run_def)

lemma add_title_eq:
  "add_title data
     = (if xml_compatible (course_title data) then Inr (title_paragraph data) else Inl ValueError)"
  by (simp add: add_title_def text_run_def title_paragraph_def add_run_def empty_paragraph_def)

lemma add_confirmation_eq: "add_confirmation = Inr confirmation_paragraph"
  by (simp add: add_confirmation_def text_run_def confirmation_paragraph_def add_run_def
        empty_paragraph_def xml_compatible_ascii xml_char_ok_def)

subsection \<open>The loops\<close>

lemma set_column_width_replicate:
  "idx < length r \<Longrightarrow>
   set_column_width idx w (replicate n r) = Inr (replicate n (r[idx := (r ! idx)\<lparr>c_width := Some w\<rparr>]))"
  by (induction n) (simp_all add: cell_upd_def)

lemma set_headers_init:
  "set_headers 0 headers (replicate 6 empty_cell) = Inr header_cells0"
  by (simp add: headers_def cell_upd_def eval_nat_numeral header_cell_def cell_set_text_def
        text_run_def xml_compatible_ascii xml_char_ok_def header_cells0_def set_cell_border_def
        format_header_paragraph_def add_run_def empty_paragraph_def empty_cell_def)

lemma set_widths_init:
  "set_widths 0 widths (header_cells0 # replicate n (replicate 6 empty_cell))
     = Inr (header_row # replicate n body_row)"
  apply (simp add: widths_def header_cells0_def headers_def cell_upd_def set_column_width_replicate)
  apply (simp add: eval_nat_numeral header_row_def body_row_def headers_def widths_def)
  done

lemma write_file_eq:
  "write_file s p d
     = (if can_write s p then Inr (s\<lparr>files := (files s)(p \<mapsto> d)\<rparr>) else Inl (write_error p))"
  by (auto simp: write_file_def can_write_def write_error_def)

lemma fill_row_body:
  "fill_row lib s idx expt body_row =
     (if \<not> (xml_compatible (date expt) \<and> xml_compatible (title expt) \<and> xml_compatible (github expt))
      then (Inl ValueError, s)
      else
     (case create_qr_code lib (github expt) 150 of
        Inl e \<Rightarrow> (Inl e, s)
      | Inr png \<Rightarrow>
          (if \<not> can_write s (qr_filename idx) then (Inl (write_error (qr_filename idx)), s)
           else if docx_image_ok lib png
           then (Inr (filled_row idx expt png), s\<lparr>files := (files s)(qr_filename idx \<mapsto> Bytes png)\<rparr>)
           else (Inl (LibraryError ''UnrecognizedImageError''),
                 s\<lparr>files := (files s)(qr_filename idx \<mapsto> Bytes png)\<rparr>))))"
proof -
  have lf: "xml_compatible [CHR 0x0A, CHR 0x0A]"
    by (simp add: xml_compatible_def xml_char_ok_def)
  have nd: "\<not> can_write s p \<or> p \<notin> dirs s" for p
    by (auto simp: can_write_def)
  show ?thesis
    using nd[of "qr_filename idx"]
    by (auto simp: fill_row_def body_row_def widths_def cell_upd_def seq_cell_def date_cell_def
          title_cell_def qr_cell_def blank_cell_def para0_upd_def cell_set_text_def empty_cell_def
          add_run_def empty_paragraph_def paragraph_set_text_def write_file_eq add_picture_def
          read_file_def filled_row_def text_run_eq seq_text_ok xml_compatible_Nil lf
        split: sum.splits)
qed

lemma fill_rows_closed:
  assumes "length pre = idx + 1"
      and "fill_rows lib idx exps (pre @ replicate (length exps) body_row) qrs s = (Inr (rows', qrs'), s')"
  shows "rows' = pre @ filled_rows lib idx exps
       \<and> qrs' = qrs @ map qr_filename [idx..<idx + length exps]
       \<and> dirs s' = dirs s
       \<and> list_all (row_ok lib) exps
       \<and> (\<forall>p. p \<notin> qr_filename ` {idx..<idx + length exps} \<longrightarrow> files s' p = files s p)
       \<and> (\<forall>i\<in>{idx..<idx + length exps}. qr_filename i \<notin> dirs s)"
  using assms
proof (induction exps arbitrary: idx pre qrs s)
  case Nil
  then show ?case by simp
next
  case (Cons expt exps)
  let ?q = "qr_filename idx"
  from Cons.prems(2) Cons.prems(1)
  obtain png where png: "create_qr_code lib (github expt) 150 = Inr png"
    and cw: "can_write s ?q" and ok: "docx_image_ok lib png"
    and tx: "xml_compatible (date expt)" "xml_compatible (title expt)" "xml_compatible (github expt)"
    and rec: "fill_rows lib (idx + 1) exps
               ((pre @ [filled_row idx expt png]) @ replicate (length exps) body_row)
               (qrs @ [?q]) (s\<lparr>files := (files s)(?q \<mapsto> Bytes png)\<rparr>) = (Inr (rows', qrs'), s')"
    by (auto simp: nth_append fill_row_body list_update_append split: sum.splits if_splits)
  have len: "length (pre @ [filled_row idx expt png]) = (idx + 1) + 1"
    using Cons.prems(1) by simp
  note IH = Cons.IH[OF len rec]
  have up: "[idx..<idx + length (expt # exps)] = idx # [idx + 1..<idx + 1 + length exps]"
    using upt_conv_Cons[of idx "idx + Suc (length exps)"] by simp
  have set_eq: "{idx..<idx + length (expt # exps)} = insert idx {idx + 1..<idx + 1 + length exps}"
    by auto
  show ?case
    unfolding up set_eq
    using IH png cw ok tx
    by (auto simp: png_of_def row_ok_def can_write_def)
qed

lemma build_table_success:
  assumes "build_table lib s exps = (Inr (tbl, qrs), s')"
  shows "tbl = experiment_table lib exps
       \<and> qrs = map qr_filename [0..<length exps]
       \<and> dirs s' = dirs s
       \<and> list_all (row_ok lib) exps
       \<and> (\<forall>p. p \<notin> qr_filename ` {0..<length exps} \<longrightarrow> files s' p = files s p)
       \<and> (\<forall>i\<in>{0..<length exps}. qr_filename i \<notin> dirs s)"
proof -
  from assms obtain rows' where
    fr: "fill_rows lib 0 exps ([header_row] @ replicate (length exps) body_row) [] s
           = (Inr (rows', qrs), s')"
    and tbl: "tbl = \<lparr>t_rows = rows', t_style = Some ''Table Grid'', t_autofit = None\<rparr>"
    by (auto simp: build_table_def add_table_def set_headers_init set_widths_init
             split: sum.splits prod.splits)
  have len: "length [header_row] = 0 + 1" by simp
  from fill_rows_closed[OF len fr] tbl show ?thesis
    by (simp add: experiment_table_def)
qed

lemma build_details_eq:
  "build_details data
     = (if xml_compatible (student_name data) \<and> xml_compatible (register_number data)
        then Inr (details_table_of data) else Inl ValueError)"
proof -
  have n: "xml_compatible (''Name: '' @ t) = xml_compatible t" for t
    by (rule xml_compatible_ascii_append) (simp add: xml_char_ok_def)
  have r: "xml_compatible (''Register Number: '' @ t) = xml_compatible t" for t
    by (rule xml_compatible_ascii_append) (simp add: xml_char_ok_def)
  show ?thesis
    unfolding build_details_def add_table_def text_run_eq n r
    by (simp add: cell_upd_def para0_upd_def empty_cell_def add_run_def empty_paragraph_def
          details_table_of_def eval_nat_numeral)
qed

lemma restrict_map_remove: "(m(q := None)) |` (- A) = m |` (- insert q A)"
  by (rule ext) (simp add: restrict_map_def)

lemma restrict_map_absent: "m q = None \<Longrightarrow> m |` (- A) = m |` (- insert q A)"
  by (rule ext) (auto simp: restrict_map_def)

lemma remove_qr_images_eq:
  "\<forall>q\<in>set qrs. q \<notin> dirs s \<Longrightarrow>
   remove_qr_images qrs s = (Inr (), s\<lparr>files := files s |` (- set qrs)\<rparr>)"
proof (induction qrs arbitrary: s)
  case Nil
  then show ?case by simp
next
  case (Cons q qrs)
  show ?case
  proof (cases "files s q")
    case None
    have "remove_qr_images (q # qrs) s = remove_qr_images qrs s"
      using None Cons.prems by (simp add: os_path_exists_def)
    also have "\<dots> = (Inr (), s\<lparr>files := files s |` (- set qrs)\<rparr>)"
      using Cons.prems by (intro Cons.IH) simp
    also have "files s |` (- set qrs) = files s |` (- set (q # qrs))"
      using restrict_map_absent[of "files s" q "set qrs"] None by simp
    finally show ?thesis .
  next
    case (Some d)
    let ?s = "s\<lparr>files := (files s)(q := None)\<rparr>"
    have "remove_qr_images (q # qrs) s = remove_qr_images qrs ?s"
      using Some Cons.prems by (simp add: os_path_exists_def os_remove_def)
    also have "\<dots> = (Inr (), ?s\<lparr>files := files ?s |` (- set qrs)\<rparr>)"
      using Cons.prems by (intro Cons.IH) simp
    also have "?s\<lparr>files := files ?s |` (- set qrs)\<rparr> = s\<lparr>files := files s |` (- set (q # qrs))\<rparr>"
      using restrict_map_remove[of "files s" q "set qrs"] by simp
    finally show ?thesis .
  qed
qed

lemma output_filename_not_qr: "output_filename data \<noteq> qr_filename i"
proof
  assume "output_filename data = qr_filename i"
  then have "last (output_filename data) = last (qr_filename i)" by simp
  then show False by (simp add: output_filename_def qr_filename_def)
qed

lemma generate_docx_success:
  assumes "generate_docx lib base_dir s data = (Inr resp, s')"
  shows "\<exists>logo_blocks.
           add_logo lib s base_dir = Inr logo_blocks
         \<and> resp = the_response data
         \<and> record_text_ok data
         \<and> can_write s (output_filename data)
         \<and> list_all (row_ok lib) (experiments data)
         \<and> dirs s' = dirs s
         \<and> files s' (output_filename data) = Some (Docx (document_of lib data logo_blocks))
         \<and> (\<forall>i\<in>{0..<length (experiments data)}. \<not> os_path_exists s' (qr_filename i))
         \<and> (\<forall>p. p \<noteq> output_filename data \<longrightarrow> p \<notin> qr_filename ` {0..<length (experiments data)}
                 \<longrightarrow> files s' p = files s p)"
proof -
  from assms obtain lb tbl qrs s1 s3 where
    lb: "add_logo lib s base_dir = Inr lb"
    and bt: "build_table lib s (experiments data) = (Inr (tbl, qrs), s1)"
    and cw: "can_write s1 (output_filename data)"
    and rm: "remove_qr_images qrs
               (s1\<lparr>files := (files s1)(output_filename data \<mapsto>
                  Docx (Document\<lparr>d_sections := map set_margins (d_sections Document),
                     d_body := d_body Document @ lb @
                       [Paragraph (title_paragraph data), Paragraph empty_paragraph, Table tbl,
                        Paragraph empty_paragraph, Paragraph empty_paragraph,
                        Paragraph confirmation_paragraph, Paragraph empty_paragraph,
                        Table (details_table_of data)]\<rparr>))\<rparr>) = (Inr (), s')"
    and resp: "resp = the_response data"
    and tx: "record_text_ok data"
    by (auto simp: generate_docx_def generate_docx_try_def build_details_eq write_file_eq
          add_title_eq add_confirmation_eq record_text_ok_def the_response_def Let_def
          split: sum.splits prod.splits if_splits)
  note B = build_table_success[OF bt]
  let ?s2 = "s1\<lparr>files := (files s1)(output_filename data \<mapsto>
                  Docx (document_of lib data lb))\<rparr>"
  have doc: "Document\<lparr>d_sections := map set_margins (d_sections Document),
                     d_body := d_body Document @ lb @
                       [Paragraph (title_paragraph data), Paragraph empty_paragraph, Table tbl,
                        Paragraph empty_paragraph, Paragraph empty_paragraph,
                        Paragraph confirmation_paragraph, Paragraph empty_paragraph,
                        Table (details_table_of data)]\<rparr> = document_of lib data lb"
    using B by (simp add: Document_def set_margins_def document_of_def)
  have nd: "\<forall>q\<in>set qrs. q \<notin> dirs ?s2"
    using B by auto
  from rm doc have s': "s' = ?s2\<lparr>files := files ?s2 |` (- set qrs)\<rparr>"
    using remove_qr_images_eq[OF nd] by simp
  have qrs: "set qrs = qr_filename ` {0..<length (experiments data)}"
    using B by simp
  have out: "output_filename data \<notin> set qrs"
    unfolding qrs using output_filename_not_qr by auto
  have cw': "can_write s (output_filename data)"
    using cw B by (simp add: can_write_def)
  show ?thesis
    apply (rule exI[of _ lb])
    using lb resp cw' B out tx
    unfolding s' qrs
    by (auto simp: os_path_exists_def restrict_map_def)
qed

lemma can_write_files_upd [simp]: "can_write (s\<lparr>files := m\<rparr>) p = can_write s p"
  by (simp add: can_write_def)

lemma fill_rows_succeeds:
  assumes "length pre = idx + 1"
      and "list_all (row_ok lib) exps"
      and "\<forall>i\<in>{idx..<idx + length exps}. can_write s (qr_filename i)"
  shows "\<exists>s'. fill_rows lib idx exps (pre @ replicate (length exps) body_row) qrs s
           = (Inr (pre @ filled_rows lib idx exps,
                   qrs @ map qr_filename [idx..<idx + length exps]), s')"
  using assms
proof (induction exps arbitrary: idx pre qrs s)
  case Nil
  then show ?case by simp
next
  case (Cons expt exps)
  let ?q = "qr_filename idx"
  from Cons.prems(2) have rest: "list_all (row_ok lib) exps" and this_ok: "row_ok lib expt"
    by simp_all
  from this_ok obtain png where png: "create_qr_code lib (github expt) 150 = Inr png"
    and ok: "docx_image_ok lib png"
    and tx: "xml_compatible (date expt)" "xml_compatible (title expt)" "xml_compatible (github expt)"
    by (auto simp: row_ok_def split: sum.splits)
  from Cons.prems(3) have cw: "can_write s ?q" by simp
  let ?s1 = "s\<lparr>files := (files s)(?q \<mapsto> Bytes png)\<rparr>"
  have len: "length (pre @ [filled_row idx expt png]) = (idx + 1) + 1"
    using Cons.prems(1) by simp
  have cws: "\<forall>i\<in>{idx + 1..<idx + 1 + length exps}. can_write ?s1 (qr_filename i)"
    using Cons.prems(3) by simp
  from Cons.IH[OF len rest cws, of "qrs @ [?q]"] obtain s' where
    rec: "fill_rows lib (idx + 1) exps
            ((pre @ [filled_row idx expt png]) @ replicate (length exps) body_row)
            (qrs @ [?q]) ?s1
          = (Inr ((pre @ [filled_row idx expt png]) @ filled_rows lib (idx + 1) exps,
                  (qrs @ [?q]) @ map qr_filename [idx + 1..<idx + 1 + length exps]), s')"
    by blast
  have up: "[idx..<idx + length (expt # exps)] = idx # [idx + 1..<idx + 1 + length exps]"
    using upt_conv_Cons[of idx "idx + Suc (length exps)"] by simp
  have step: "fill_rows lib idx (expt # exps) (pre @ replicate (length (expt # exps)) body_row) qrs s
      = fill_rows lib (idx + 1) exps
            ((pre @ [filled_row idx expt png]) @ replicate (length exps) body_row)
            (qrs @ [?q]) ?s1"
    using Cons.prems(1) png ok cw tx
    by (simp add: nth_append fill_row_body list_update_append)
  show ?case
    unfolding step up using rec by (simp add: png_of_def png)
qed

lemma build_table_succeeds:
  assumes "list_all (row_ok lib) exps"
      and "\<forall>i\<in>{0..<length exps}. can_write s (qr_filename i)"
  shows "\<exists>s'. build_table lib s exps
           = (Inr (experiment_table lib exps, map qr_filename [0..<length exps]), s')"
proof -
  have len: "length [header_row] = 0 + 1" by simp
  from assms(2) have cws: "\<forall>i\<in>{0..<0 + length exps}. can_write s (qr_filename i)" by simp
  from fill_rows_succeeds[OF len assms(1) cws, of "[]"] obtain s' where
    "fill_rows lib 0 exps ([header_row] @ replicate (length exps) body_row) [] s
       = (Inr ([header_row] @ filled_rows lib 0 exps, [] @ map qr_filename [0..<0 + length exps]), s')"
    by blast
  then show ?thesis
    by (simp add: build_table_def add_table_def set_headers_init set_widths_init
          experiment_table_def)
qed

lemma generate_docx_succeeds:
  assumes "add_logo lib s base_dir = Inr logo_blocks"
      and "list_all (row_ok lib) (experiments data)"
      and "\<forall>i\<in>{0..<length (experiments data)}. can_write s (qr_filename i)"
      and "can_write s (output_filename data)"
      and "record_text_ok data"
  shows "\<exists>s'. generate_docx lib base_dir s data = (Inr (the_response data), s')"
proof -
  from build_table_succeeds[OF assms(2,3)] obtain s1 where
    bt: "build_table lib s (experiments data)
           = (Inr (experiment_table lib (experiments data),
                   map qr_filename [0..<length (experiments data)]), s1)"
    by blast
  note B = build_table_success[OF bt]
  have cw: "can_write s1 (output_filename data)"
    using assms(4) B by (simp add: can_write_def)
  have nd: "\<forall>q\<in>set (map qr_filename [0..<length (experiments data)]). q \<notin> dirs (s1\<lparr>files := m\<rparr>)" for m
    using B by auto
  show ?thesis
    using assms(1,5) bt cw
    by (simp add: generate_docx_def generate_docx_try_def build_details_eq write_file_eq
          add_title_eq add_confirmation_eq record_text_ok_def
          remove_qr_images_eq[OF nd] the_response_def Let_def)
qed

lemma digit_value_digit: "d < 10 \<Longrightarrow> digit_value (digit d) = d"
  by (auto simp: digit_def digit_value_def less_Suc_eq eval_nat_numeral)

lemma int_of_str_str_nat: "int_of_str (str_nat n) = n"
proof (induction n rule: str_nat.induct)
  case (1 n)
  show ?case
  proof (cases "n < 10")
    case True
    then show ?thesis
      by (subst str_nat.simps) (simp add: int_of_str_def digit_value_digit)
  next
    case False
    with 1 have IH: "int_of_str (str_nat (n div 10)) = n div 10" by simp
    have "int_of_str (str_nat n) = 10 * int_of_str (str_nat (n div 10)) + digit_value (digit (n mod 10))"
      using False by (subst str_nat.simps) (simp add: int_of_str_def)
    then show ?thesis using IH by (simp add: digit_value_digit)
  qed
qed

lemma str_nat_nonempty: "str_nat n \<noteq> []"
  by (subst str_nat.simps) simp

lemma length_str_nat_small: "n < 10 \<Longrightarrow> str_nat n = [digit n]"
  by (subst str_nat.simps) simp

lemma length_str_nat_big: "\<not> n < 10 \<Longrightarrow> 2 \<le> length (str_nat n)"
proof -
  assume "\<not> n < 10"
  then have "str_nat n = str_nat (n div 10) @ [digit (n mod 10)]"
    by (subst str_nat.simps) simp
  moreover have "1 \<le> length (str_nat (n div 10))"
    using str_nat_nonempty[of "n div 10"] by (cases "str_nat (n div 10)") simp_all
  ultimately show ?thesis by simp
qed

lemma digit_not_sign: "d < 10 \<Longrightarrow> digit d \<noteq> CHR ''+'' \<and> digit d \<noteq> CHR ''-''"
  by (auto simp: digit_def less_Suc_eq eval_nat_numeral)

lemma zfill_str_nat:
  "zfill 2 (str_nat n) = (if n < 10 then [CHR ''0'', digit n] else str_nat n)"
proof (cases "n < 10")
  case True
  then show ?thesis
    using digit_not_sign[of n] by (simp add: zfill_def length_str_nat_small)
next
  case False
  then show ?thesis
    using length_str_nat_big[of n] by (simp add: zfill_def)
qed

lemma filled_rows_nth:
  "i < length exps \<Longrightarrow>
   filled_rows lib idx exps ! i = filled_row (idx + i) (exps ! i) (png_of lib (exps ! i))"
proof (induction exps arbitrary: idx i)
  case Nil
  then show ?case by simp
next
  case (Cons e es)
  then show ?case by (cases i) simp_all
qed

lemma length_filled_rows: "length (filled_rows lib idx exps) = length exps"
  by (induction exps arbitrary: idx) simp_all

lemma filled_rows_width: "list_all (\<lambda>row. length row = 6) (filled_rows lib idx exps)"
  by (induction exps arbitrary: idx) (simp_all add: filled_row_def)

lemma add_logo_cases:
  assumes "add_logo lib s base_dir = Inr lb"
  shows "(\<not> logo_exists s base_dir \<and> lb = [])
       \<or> (logo_exists s base_dir \<and>
          (\<exists>b. lb = [Paragraph \<lparr>p_runs = [empty_run\<lparr>r_picture := Some (b, Inches 7.0)\<rparr>],
                                 p_alignment = Some CENTER\<rparr>,
                      Paragraph empty_paragraph]))"
  using assms
  by (auto simp: add_logo_def logo_exists_def add_picture_def add_run_def empty_paragraph_def
           split: option.splits sum.splits fdata.splits if_splits)

lemma add_logo_tables: "add_logo lib s base_dir = Inr lb \<Longrightarrow> doc_tables lb = []"
  using add_logo_cases[of lib s base_dir lb] by auto

lemma doc_tables_append: "doc_tables (xs @ ys) = doc_tables xs @ doc_tables ys"
  by (induction xs rule: doc_tables.induct) simp_all

lemma doc_tables_document_of:
  "doc_tables lb = [] \<Longrightarrow>
   doc_tables (d_body (document_of lib data lb))
     = [experiment_table lib (experiments data), details_table_of data]"
  by (simp add: document_of_def doc_tables_append)

lemma logo_usable_iff: "logo_usable lib s base_dir \<longleftrightarrow> (\<exists>lb. add_logo lib s base_dir = Inr lb)"
  by (auto simp: logo_usable_def add_logo_def add_picture_def
           split: option.splits sum.splits fdata.splits)

lemma header_row_texts: "map cell_text header_row = headers"
  by (simp add: header_row_def headers_def widths_def cell_text_def paragraph_text_def new_run_def)

lemma length_header_row: "length header_row = 6"
  by (simp add: header_row_def headers_def widths_def)

lemma success_document:
  assumes "generate_docx lib base_dir s data = (Inr resp, s')"
  shows "\<exists>lb. add_logo lib s base_dir = Inr lb
          \<and> resp = the_response data
          \<and> files s' (resp_path resp) = Some (Docx (document_of lib data lb))
          \<and> doc_tables (d_body (document_of lib data lb))
              = [experiment_table lib (experiments data), details_table_of data]
          \<and> list_all (row_ok lib) (experiments data)"
proof -
  from generate_docx_success[OF assms] obtain lb where
    lb: "add_logo lib s base_dir = Inr lb" and resp: "resp = the_response data"
    and f: "files s' (output_filename data) = Some (Docx (document_of lib data lb))"
    and ok: "list_all (row_ok lib) (experiments data)"
    by blast
  from doc_tables_document_of[OF add_logo_tables[OF lb]] lb resp f ok show ?thesis
    by (auto simp: the_response_def)
qed

lemma int_of_str_zfill: "int_of_str (zfill 2 (str_nat n)) = n"
proof (cases "n < 10")
  case True
  then show ?thesis
    by (simp add: zfill_str_nat int_of_str_def digit_value_digit) (simp add: digit_value_def)
next
  case False
  then show ?thesis by (simp add: zfill_str_nat int_of_str_str_nat)
qed

lemma experiment_table_row:
  "i < length exps \<Longrightarrow>
   t_rows (experiment_table lib exps) ! (i + 1) = filled_row i (exps ! i) (png_of lib (exps ! i))"
  by (simp add: experiment_table_def filled_rows_nth)

lemma seq_cell_text: "cell_text (filled_row i e png ! 0) = zfill 2 (str_nat (i + 1))"
  using digits_no_carriage_return[OF seq_text_digits, of "i + 1"]
  by (simp add: filled_row_def cell_text_def paragraph_text_def new_run_def)

lemma parse_experiments_length:
  "parse_experiments rs = Some es \<Longrightarrow> length es = length rs"
  by (induction rs arbitrary: es) (auto split: option.splits)

lemma parse_experiments_github:
  "parse_experiments rs = Some es \<Longrightarrow> i < length rs \<Longrightarrow>
   raw_github (rs ! i) = Some (github (es ! i))"
proof (induction rs arbitrary: es i)
  case Nil
  then show ?case by simp
next
  case (Cons r rs)
  then show ?case
    by (cases i) (auto simp: parse_Experiment_def split: option.splits)
qed

lemma parse_RecordData_experiments:
  "parse_RecordData raw = Some data \<Longrightarrow>
   \<exists>rs. raw_experiments raw = Some rs \<and> parse_experiments rs = Some (experiments data)"
  by (auto simp: parse_RecordData_def split: option.splits)

lemma qr_cell_pictures: "cell_pictures (filled_row i e png ! 3) = [(png, Inches 0.75)]"
  by (simp add: filled_row_def cell_pictures_def List.map_filter_simps new_run_def empty_run_def)

lemma row_ok_png:
  "row_ok lib e \<Longrightarrow> create_qr_code lib (github e) 150 = Inr (png_of lib e)"
  by (auto simp: row_ok_def png_of_def split: sum.splits)

lemma build_table_unfold:
  "build_table lib s exps =
     (case fill_rows lib 0 exps (header_row # replicate (length exps) body_row) [] s of
        (Inl e, s') \<Rightarrow> (Inl e, s')
      | (Inr (rows', qrs), s') \<Rightarrow>
          (Inr (\<lparr>t_rows = rows', t_style = Some ''Table Grid'', t_autofit = None\<rparr>, qrs), s'))"
  by (simp add: build_table_def add_table_def set_headers_init set_widths_init
        split: prod.splits sum.splits)

lemma logo_blocks_skeleton:
  assumes "add_logo lib s1 base_dir = Inr lb1"
      and "add_logo lib s2 base_dir = Inr lb2"
      and "logo_exists s1 base_dir = logo_exists s2 base_dir"
  shows "map block_skeleton lb1 = map block_skeleton lb2 \<and> length lb1 = length lb2"
  using add_logo_cases[OF assms(1)] add_logo_cases[OF assms(2)] assms(3)
  by (auto simp: paragraph_skeleton_def run_skeleton_def)

lemma skeleton_document_of:
  "skeleton (document_of lib data lb)
     = (document_of lib data [])
         \<lparr>d_body := map block_skeleton lb @ map block_skeleton (d_body (document_of lib data []))\<rparr>"
  by (simp add: skeleton_def document_of_def)

section \<open>The example inputs, evaluated\<close>

lemma qr_filename_0: "qr_filename 0 = ''/tmp/qr_0.png''"
  by (simp add: qr_filename_def str_nat.simps digit_def)

lemma demo_no_logo: "add_logo lib demo_fs ''/app'' = Inr []"
  by (simp add: add_logo_def logo_files_def demo_fs_def os_path_exists_def os_path_join_def
        startswith_def endswith_def)

lemma nested_no_logo: "add_logo lib nested_fs ''/app'' = Inr []"
  by (simp add: add_logo_def logo_files_def nested_fs_def os_path_exists_def os_path_join_def
        startswith_def endswith_def)

lemma demo_can_write_qr: "can_write demo_fs (qr_filename 0)"
  by (simp add: qr_filename_0 can_write_def demo_fs_def os_path_dirname_def os_path_basename_def)

lemma nested_can_write_qr: "can_write nested_fs (qr_filename 0)"
  by (simp add: qr_filename_0 can_write_def nested_fs_def os_path_dirname_def os_path_basename_def)

lemma demo_can_write_out: "can_write demo_fs (output_filename demo_data)"
  by (simp add: output_filename_def demo_data_def can_write_def demo_fs_def os_path_dirname_def os_path_basename_def)

lemma demo_rows_ok: "list_all (row_ok demo_libs) (experiments demo_data)"
  by (simp add: row_ok_def demo_data_def demo_libs_def create_qr_code_def
        xml_compatible_ascii xml_char_ok_def)

lemma demo_text_ok: "record_text_ok demo_data"
  by (simp add: record_text_ok_def demo_data_def xml_compatible_ascii xml_char_ok_def)

lemma example_texts_ok:
  "record_text_ok empty_data" "record_text_ok empty_url_data" "record_text_ok slash_data"
  by (simp_all add: record_text_ok_def empty_data_def empty_url_data_def slash_data_def
        demo_data_def xml_compatible_ascii xml_char_ok_def)

lemma basename_after_slash:
  assumes "CHR ''/'' \<notin> set b"
  shows "os_path_basename (a @ CHR ''/'' # b) = b"
proof -
  have tw: "takeWhile (\<lambda>c. c \<noteq> CHR ''/'') (rev b) = rev b"
    using assms by (auto simp: takeWhile_eq_all_conv)
  have "os_path_basename (a @ CHR ''/'' # b)
          = rev (takeWhile (\<lambda>c. c \<noteq> CHR ''/'') (rev b))"
    by (simp add: os_path_basename_def takeWhile_tail)
  also have "\<dots> = b"
    by (simp only: tw rev_rev_ident)
  finally show ?thesis .
qed

lemma long_texts_ok: "record_text_ok long_data"
  by (simp add: record_text_ok_def long_data_def empty_data_def demo_data_def
        xml_compatible_ascii xml_char_ok_def list_all_iff)

lemma long_cannot_write: "\<not> can_write demo_fs (output_filename long_data)"
proof -
  have p: "output_filename long_data
          = ''/tmp'' @ CHR ''/'' # (replicate 300 CHR ''R'' @ ''_Lab_Record.docx'')"
    by (simp add: output_filename_def long_data_def)
  have "CHR ''/'' \<notin> set (replicate 300 CHR ''R'' @ ''_Lab_Record.docx'')"
    by simp
  from basename_after_slash[OF this, of "''/tmp''"]
  have "os_path_basename (output_filename long_data)
               = replicate 300 CHR ''R'' @ ''_Lab_Record.docx''"
    unfolding p .
  then show ?thesis
    by (simp add: can_write_def)
qed

lemma long_no_nul: "CHR 0x00 \<notin> set (output_filename long_data)"
  by (simp add: output_filename_def long_data_def)

lemma demo_succeeds:
  "\<exists>s'. generate_docx demo_libs ''/app'' demo_fs demo_data = (Inr (the_response demo_data), s')"
proof -
  have cws: "\<forall>i\<in>{0..<length (experiments demo_data)}. can_write demo_fs (qr_filename i)"
    using demo_can_write_qr by (simp add: demo_data_def)
  from generate_docx_succeeds[OF demo_no_logo demo_rows_ok cws demo_can_write_out demo_text_ok]
  show ?thesis .
qed

lemma empty_can_write_out: "can_write demo_fs (output_filename empty_data)"
  by (simp add: output_filename_def empty_data_def demo_data_def can_write_def demo_fs_def
        os_path_dirname_def os_path_basename_def)

lemma demo_logo_usable: "logo_usable lib demo_fs ''/app''"
  using demo_no_logo by (auto simp: logo_usable_iff)

lemma parse_empty_url_request: "parse_RecordData empty_url_request = Some empty_url_data"
  by (simp add: parse_RecordData_def parse_Experiment_def empty_url_request_def
        empty_url_data_def demo_data_def)

lemma empty_url_can_write_out: "can_write demo_fs (output_filename empty_url_data)"
  by (simp add: output_filename_def empty_url_data_def demo_data_def can_write_def demo_fs_def
        os_path_dirname_def os_path_basename_def)

lemma empty_url_rows_ok: "list_all (row_ok demo_libs) (experiments empty_url_data)"
  by (simp add: row_ok_def empty_url_data_def demo_libs_def create_qr_code_def
        xml_compatible_ascii xml_char_ok_def)

lemma empty_url_succeeds:
  "\<exists>s'. post_generate_docx demo_libs ''/app'' demo_fs empty_url_request
          = (Inr (the_response empty_url_data), s')"
proof -
  have cws: "\<forall>i\<in>{0..<length (experiments empty_url_data)}. can_write demo_fs (qr_filename i)"
    using demo_can_write_qr by (simp add: empty_url_data_def)
  from generate_docx_succeeds[OF demo_no_logo empty_url_rows_ok cws empty_url_can_write_out
      example_texts_ok(2)]
  show ?thesis
    by (simp add: post_generate_docx_def parse_empty_url_request)
qed

lemma strict_build_table:
  "build_table strict_libs demo_fs (experiments empty_url_data)
     = (Inl (LibraryError ''empty data''), demo_fs)"
  by (simp add: build_table_unfold empty_url_data_def fill_row_body create_qr_code_def
        strict_libs_def demo_libs_def xml_compatible_ascii xml_char_ok_def)

lemma slash_can_write_out: "can_write nested_fs (output_filename slash_data)"
  by (simp add: output_filename_def slash_data_def demo_data_def can_write_def nested_fs_def
        os_path_dirname_def os_path_basename_def)

lemma slash_rows_ok: "list_all (row_ok demo_libs) (experiments slash_data)"
  by (simp add: row_ok_def slash_data_def demo_data_def demo_libs_def create_qr_code_def
        xml_compatible_ascii xml_char_ok_def)

lemma slash_succeeds:
  "\<exists>s'. generate_docx demo_libs ''/app'' nested_fs slash_data = (Inr (the_response slash_data), s')"
proof -
  have cws: "\<forall>i\<in>{0..<length (experiments slash_data)}. can_write nested_fs (qr_filename i)"
    using nested_can_write_qr by (simp add: slash_data_def demo_data_def)
  from generate_docx_succeeds[OF nested_no_logo slash_rows_ok cws slash_can_write_out
      example_texts_ok(3)]
  show ?thesis .
qed

lemma failed_build_keeps_code_image:
  "generate_docx demo_libs ''/app'' demo_fs slash_data
     = (Inl (HTTPException 500 (Formatted ''Error: '' (OSError ''/tmp/a/b_Lab_Record.docx''))),
        demo_fs\<lparr>files := [''/tmp/qr_0.png'' \<mapsto> Bytes ''PNG:https://github.com/x/y'']\<rparr>)"
proof -
  have bt: "build_table demo_libs demo_fs (experiments slash_data)
     = (Inr (experiment_table demo_libs (experiments slash_data), [''/tmp/qr_0.png'']),
        demo_fs\<lparr>files := [''/tmp/qr_0.png'' \<mapsto> Bytes ''PNG:https://github.com/x/y'']\<rparr>)"
    using demo_can_write_qr
    by (simp add: build_table_unfold slash_data_def demo_data_def fill_row_body
          create_qr_code_def demo_libs_def experiment_table_def png_of_def qr_filename_0 demo_fs_def
          xml_compatible_ascii xml_char_ok_def)
  have cw: "\<not> can_write demo_fs (output_filename slash_data)"
    by (simp add: output_filename_def slash_data_def demo_data_def can_write_def demo_fs_def
          os_path_dirname_def os_path_basename_def)
  show ?thesis
    using example_texts_ok(3)
    by (simp add: generate_docx_def generate_docx_try_def demo_no_logo bt build_details_eq
          add_title_eq add_confirmation_eq record_text_ok_def write_file_eq cw Let_def)
       (simp add: output_filename_def slash_data_def demo_data_def write_error_def)
qed

lemma png_logo_blocks:
  "add_logo demo_libs png_logo_fs ''/app''
     = Inr [Paragraph \<lparr>p_runs = [empty_run\<lparr>r_picture := Some (''first logo'', Inches 7.0)\<rparr>],
                        p_alignment = Some CENTER\<rparr>,
            Paragraph empty_paragraph]"
  by (simp add: add_logo_def logo_files_def png_logo_fs_def os_path_exists_def os_path_join_def
        startswith_def endswith_def add_picture_def read_file_def demo_libs_def add_run_def
        empty_paragraph_def)

lemma jpg_logo_blocks:
  "add_logo demo_libs jpg_logo_fs ''/app''
     = Inr [Paragraph \<lparr>p_runs = [empty_run\<lparr>r_picture := Some (''second logo'', Inches 7.0)\<rparr>],
                        p_alignment = Some CENTER\<rparr>,
            Paragraph empty_paragraph]"
  by (simp add: add_logo_def logo_files_def jpg_logo_fs_def os_path_exists_def os_path_join_def
        startswith_def endswith_def add_picture_def read_file_def demo_libs_def add_run_def
        empty_paragraph_def)

lemma logo_fs_can_write:
  "can_write png_logo_fs p = can_write demo_fs p" "can_write jpg_logo_fs p = can_write demo_fs p"
  by (simp_all add: can_write_def png_logo_fs_def jpg_logo_fs_def demo_fs_def)

lemma png_logo_succeeds:
  "\<exists>s'. generate_docx demo_libs ''/app'' png_logo_fs demo_data = (Inr (the_response demo_data), s')"
proof -
  have cws: "\<forall>i\<in>{0..<length (experiments demo_data)}. can_write png_logo_fs (qr_filename i)"
    using demo_can_write_qr by (simp add: demo_data_def logo_fs_can_write)
  have out: "can_write png_logo_fs (output_filename demo_data)"
    using demo_can_write_out by (simp add: logo_fs_can_write)
  from generate_docx_succeeds[OF png_logo_blocks demo_rows_ok cws out demo_text_ok] show ?thesis .
qed

lemma jpg_logo_succeeds:
  "\<exists>s'. generate_docx demo_libs ''/app'' jpg_logo_fs demo_data = (Inr (the_response demo_data), s')"
proof -
  have cws: "\<forall>i\<in>{0..<length (experiments demo_data)}. can_write jpg_logo_fs (qr_filename i)"
    using demo_can_write_qr by (simp add: demo_data_def logo_fs_can_write)
  have out: "can_write jpg_logo_fs (output_filename demo_data)"
    using demo_can_write_out by (simp add: logo_fs_can_write)
  from generate_docx_succeeds[OF jpg_logo_blocks demo_rows_ok cws out demo_text_ok] show ?thesis .
qed

lemma logos_exist: "logo_exists png_logo_fs ''/app''" "logo_exists jpg_logo_fs ''/app''"
  by (simp_all add: logo_exists_def logo_files_def png_logo_fs_def jpg_logo_fs_def
        os_path_exists_def os_path_join_def startswith_def endswith_def)

section \<open>The claims\<close>

text \<open>
  Claim C1. On every successful build, the experiment table of the document that was
  written (the first of its two tables) has one row more than the record has
  experiments, every row has 6 cells, and the texts of the first row are the fixed
  labels Exp, Date, Name of The Experiment, QR Code, Mark, Signature in that order.
\<close>

theorem experiment_table_shape:
  assumes "generate_docx lib base_dir s data = (Inr resp, s')"
  shows "\<exists>doc tbl details.
           files s' (resp_path resp) = Some (Docx doc)
         \<and> doc_tables (d_body doc) = [tbl, details]
         \<and> length (t_rows tbl) = length (experiments data) + 1
         \<and> list_all (\<lambda>row. length row = 6) (t_rows tbl)
         \<and> map cell_text (t_rows tbl ! 0) = headers"
proof -
  from generate_docx_success[OF assms] obtain lb where
    lb: "add_logo lib s base_dir = Inr lb" and resp: "resp = the_response data"
    and f: "files s' (output_filename data) = Some (Docx (document_of lib data lb))"
    by blast
  have t: "doc_tables (d_body (document_of lib data lb))
             = [experiment_table lib (experiments data), details_table_of data]"
    using doc_tables_document_of[OF add_logo_tables[OF lb]] .
  show ?thesis
    apply (rule exI[of _ "document_of lib data lb"])
    apply (rule exI[of _ "experiment_table lib (experiments data)"])
    apply (rule exI[of _ "details_table_of data"])
    using f t resp
    by (simp add: the_response_def experiment_table_def length_filled_rows filled_rows_width
          length_header_row header_row_texts)
qed

theorem experiment_table_shape_witness:
  "\<exists>resp s' doc tbl details.
      generate_docx demo_libs ''/app'' demo_fs demo_data = (Inr resp, s')
    \<and> files s' (resp_path resp) = Some (Docx doc)
    \<and> doc_tables (d_body doc) = [tbl, details]
    \<and> length (t_rows tbl) = 2
    \<and> list_all (\<lambda>row. length row = 6) (t_rows tbl)
    \<and> map cell_text (t_rows tbl ! 0)
        = [''Exp'', ''Date'', ''Name of The Experiment'', ''QR Code'', ''Mark'', ''Signature'']"
proof -
  from demo_succeeds obtain s' where
    run: "generate_docx demo_libs ''/app'' demo_fs demo_data = (Inr (the_response demo_data), s')"
    by blast
  from experiment_table_shape[OF run] obtain doc tbl details where
    "files s' (resp_path (the_response demo_data)) = Some (Docx doc)"
    "doc_tables (d_body doc) = [tbl, details]"
    "length (t_rows tbl) = length (experiments demo_data) + 1"
    "list_all (\<lambda>row. length row = 6) (t_rows tbl)"
    "map cell_text (t_rows tbl ! 0) = headers"
    by blast
  moreover have "length (experiments demo_data) + 1 = 2"
    by (simp add: demo_data_def)
  ultimately show ?thesis
    using run unfolding headers_def by metis
qed

text \<open>
  Claim C3, as amended. The claim says that a record with an empty reference URL is
  rejected before assembly and that the generator never sees empty content. The
  models declare \<open>github: str\<close> and nothing more, so an empty string passes. What holds:
  whenever a request that contains an experiment with \<open>github = ""\<close> is answered
  successfully, \<open>create_qr_code\<close> returned an image for the empty string and the code cell
  of that experiment's row embeds exactly that image.
\<close>

theorem empty_url_reaches_generator:
  assumes "post_generate_docx lib base_dir s raw = (Inr resp, s')"
      and "raw_experiments raw = Some rs"
      and "i < length rs"
      and "raw_github (rs ! i) = Some []"
  shows "\<exists>doc tbl details png.
           files s' (resp_path resp) = Some (Docx doc)
         \<and> doc_tables (d_body doc) = [tbl, details]
         \<and> create_qr_code lib [] 150 = Inr png
         \<and> cell_pictures (t_rows tbl ! (i + 1) ! 3) = [(png, Inches 0.75)]"
proof -
  from assms(1) obtain data where
    p: "parse_RecordData raw = Some data"
    and run: "generate_docx lib base_dir s data = (Inr resp, s')"
    by (auto simp: post_generate_docx_def split: option.splits)
  from parse_RecordData_experiments[OF p] assms(2) have
    pe: "parse_experiments rs = Some (experiments data)" by auto
  from parse_experiments_length[OF pe] assms(3) have
    len: "i < length (experiments data)" by simp
  from parse_experiments_github[OF pe assms(3)] assms(4) have
    g: "github (experiments data ! i) = []" by simp
  from success_document[OF run] obtain lb where
    f: "files s' (resp_path resp) = Some (Docx (document_of lib data lb))"
    and t: "doc_tables (d_body (document_of lib data lb))
              = [experiment_table lib (experiments data), details_table_of data]"
    and ok: "list_all (row_ok lib) (experiments data)"
    by blast
  from ok len have "row_ok lib (experiments data ! i)"
    by (simp add: list_all_length)
  from row_ok_png[OF this] g have
    png: "create_qr_code lib [] 150 = Inr (png_of lib (experiments data ! i))" by simp
  have c: "cell_pictures (t_rows (experiment_table lib (experiments data)) ! (i + 1) ! 3)
             = [(png_of lib (experiments data ! i), Inches 0.75)]"
    by (simp only: experiment_table_row[OF len] qr_cell_pictures)
  show ?thesis
    apply (rule exI[of _ "document_of lib data lb"])
    apply (rule exI[of _ "experiment_table lib (experiments data)"])
    apply (rule exI[of _ "details_table_of data"])
    apply (rule exI[of _ "png_of lib (experiments data ! i)"])
    using f t png c by simp
qed

text \<open>The hypotheses of C3 as amended hold for the example request with an empty URL.\<close>

theorem empty_url_reaches_generator_witness:
  "\<exists>resp s' doc tbl details.
      post_generate_docx demo_libs ''/app'' demo_fs empty_url_request = (Inr resp, s')
    \<and> raw_experiments empty_url_request
        = Some [\<lparr>raw_title = Some ''Exp1'', raw_date = None, raw_github = Some []\<rparr>]
    \<and> files s' (resp_path resp) = Some (Docx doc)
    \<and> doc_tables (d_body doc) = [tbl, details]
    \<and> create_qr_code demo_libs [] 150 = Inr ''PNG:''
    \<and> cell_pictures (t_rows tbl ! 1 ! 3) = [(''PNG:'', Inches 0.75)]"
proof -
  from empty_url_succeeds obtain s' where
    run: "post_generate_docx demo_libs ''/app'' demo_fs empty_url_request
            = (Inr (the_response empty_url_data), s')"
    by blast
  let ?rs = "[\<lparr>raw_title = Some ''Exp1'', raw_date = None, raw_github = Some []\<rparr>]"
  have rs: "raw_experiments empty_url_request = Some ?rs"
    by (simp add: empty_url_request_def)
  have i: "0 < length ?rs" and g: "raw_github (?rs ! 0) = Some []" by simp_all
  from empty_url_reaches_generator[OF run rs i g] obtain doc tbl details png where
    "files s' (resp_path (the_response empty_url_data)) = Some (Docx doc)"
    "doc_tables (d_body doc) = [tbl, details]"
    "create_qr_code demo_libs [] 150 = Inr png"
    "cell_pictures (t_rows tbl ! (0 + 1) ! 3) = [(png, Inches 0.75)]"
    by blast
  moreover have "create_qr_code demo_libs [] 150 = Inr ''PNG:''"
    by (simp add: create_qr_code_def demo_libs_def)
  ultimately show ?thesis
    using run rs by (simp del: One_nat_def)
qed

text \<open>
  The counterexample to C3 as stated: the example request has an experiment with an empty
  URL; validation accepts it; with a generator that encodes the empty string the answer
  is the document, and with a generator that refuses the empty string the answer is
  status 500 carrying the generator's own exception, not a validation failure.
\<close>

theorem empty_url_not_rejected:
  "parse_RecordData empty_url_request = Some empty_url_data
   \<and> github (experiments empty_url_data ! 0) = []
   \<and> fst (post_generate_docx demo_libs ''/app'' demo_fs empty_url_request)
       = Inr (the_response empty_url_data)
   \<and> post_generate_docx strict_libs ''/app'' demo_fs empty_url_request
       = (Inl (HTTPException 500 (Formatted ''Error: '' (LibraryError ''empty data''))), demo_fs)"
proof -
  have a: "fst (post_generate_docx demo_libs ''/app'' demo_fs empty_url_request)
             = Inr (the_response empty_url_data)"
    using empty_url_succeeds by auto
  have b: "post_generate_docx strict_libs ''/app'' demo_fs empty_url_request
       = (Inl (HTTPException 500 (Formatted ''Error: '' (LibraryError ''empty data''))), demo_fs)"
    using example_texts_ok(2)
    by (simp add: post_generate_docx_def parse_empty_url_request generate_docx_def
          generate_docx_try_def demo_no_logo strict_build_table add_title_eq
          record_text_ok_def)
  have c: "github (experiments empty_url_data ! 0) = []"
    by (simp add: empty_url_data_def)
  from a b c parse_empty_url_request show ?thesis by simp
qed

text \<open>
  Claim C4. On every successful build, the first cell of the row of experiment \<open>i\<close>
  (0-based; row \<open>i + 1\<close> of the table) has the text \<open>str(i + 1).zfill(2)\<close>: a zero and
  the digit when \<open>i + 1\<close> is below 10, the full decimal numeral otherwise, which reads
  back as \<open>i + 1\<close>. Rows 1, 12 and 100 give 01, 12 and 100.
\<close>

theorem sequence_cell_text:
  assumes "generate_docx lib base_dir s data = (Inr resp, s')"
      and "i < length (experiments data)"
  shows "\<exists>doc tbl details.
           files s' (resp_path resp) = Some (Docx doc)
         \<and> doc_tables (d_body doc) = [tbl, details]
         \<and> cell_text (t_rows tbl ! (i + 1) ! 0) = zfill 2 (str_nat (i + 1))
         \<and> zfill 2 (str_nat (i + 1))
             = (if i + 1 < 10 then [CHR ''0'', digit (i + 1)] else str_nat (i + 1))
         \<and> int_of_str (cell_text (t_rows tbl ! (i + 1) ! 0)) = i + 1
         \<and> zfill 2 (str_nat 1) = ''01''
         \<and> zfill 2 (str_nat 12) = ''12''
         \<and> zfill 2 (str_nat 100) = ''100''"
proof -
  from success_document[OF assms(1)] obtain lb where
    f: "files s' (resp_path resp) = Some (Docx (document_of lib data lb))"
    and t: "doc_tables (d_body (document_of lib data lb))
              = [experiment_table lib (experiments data), details_table_of data]"
    by blast
  have c: "cell_text (t_rows (experiment_table lib (experiments data)) ! (i + 1) ! 0)
             = zfill 2 (str_nat (i + 1))"
    by (simp only: experiment_table_row[OF assms(2)] seq_cell_text)
  have e1: "zfill 2 (str_nat 1) = ''01''"
    by (simp add: zfill_def str_nat.simps digit_def)
  have e2: "zfill 2 (str_nat 12) = ''12''"
    by (simp add: zfill_def str_nat.simps digit_def)
  have e3: "zfill 2 (str_nat 100) = ''100''"
    by (simp add: zfill_def str_nat.simps digit_def)
  show ?thesis
    apply (rule exI[of _ "document_of lib data lb"])
    apply (rule exI[of _ "experiment_table lib (experiments data)"])
    apply (rule exI[of _ "details_table_of data"])
    using f t c e1 e2 e3 zfill_str_nat[of "i + 1"] int_of_str_zfill[of "i + 1"]
    by simp
qed

theorem sequence_cell_text_witness:
  "\<exists>resp s' doc tbl details.
      generate_docx demo_libs ''/app'' demo_fs demo_data = (Inr resp, s')
    \<and> (0::nat) < length (experiments demo_data)
    \<and> files s' (resp_path resp) = Some (Docx doc)
    \<and> doc_tables (d_body doc) = [tbl, details]
    \<and> cell_text (t_rows tbl ! 1 ! 0) = ''01''"
proof -
  from demo_succeeds obtain s' where
    run: "generate_docx demo_libs ''/app'' demo_fs demo_data = (Inr (the_response demo_data), s')"
    by blast
  have len: "(0::nat) < length (experiments demo_data)"
    by (simp add: demo_data_def)
  from sequence_cell_text[OF run len] obtain doc tbl details where
    "files s' (resp_path (the_response demo_data)) = Some (Docx doc)"
    "doc_tables (d_body doc) = [tbl, details]"
    "cell_text (t_rows tbl ! (0 + 1) ! 0) = zfill 2 (str_nat (0 + 1))"
    "zfill 2 (str_nat 1) = ''01''"
    by blast
  then show ?thesis
    using run len by (simp del: One_nat_def)
qed

text \<open>
  Claim C5, as amended. The claim says that every record with no experiments is
  assembled without error. The handler writes the course title, the student name and
  the register number into the document and the register number into the file name, and
  the build fails when one of them cannot be written. What holds: for a record with no
  experiments whose three texts are XML compatible, when the logo, if there is one, can
  be embedded and the output file can be opened for writing, the build succeeds and the
  experiment table of the written document has exactly one row, the header row.
\<close>

theorem empty_experiments_header_only:
  assumes "experiments data = []"
      and "record_text_ok data"
      and "logo_usable lib s base_dir"
      and "can_write s (output_filename data)"
  shows "\<exists>s' doc tbl details.
           generate_docx lib base_dir s data = (Inr (the_response data), s')
         \<and> files s' (output_filename data) = Some (Docx doc)
         \<and> doc_tables (d_body doc) = [tbl, details]
         \<and> length (t_rows tbl) = 1
         \<and> map cell_text (t_rows tbl ! 0) = headers"
proof -
  from assms(3) obtain lb where lb: "add_logo lib s base_dir = Inr lb"
    by (auto simp: logo_usable_iff)
  have ok: "list_all (row_ok lib) (experiments data)"
    and cws: "\<forall>i\<in>{0..<length (experiments data)}. can_write s (qr_filename i)"
    using assms(1) by simp_all
  from generate_docx_succeeds[OF lb ok cws assms(4) assms(2)] obtain s' where
    run: "generate_docx lib base_dir s data = (Inr (the_response data), s')"
    by blast
  from success_document[OF run] lb have
    f: "files s' (output_filename data) = Some (Docx (document_of lib data lb))"
    and t: "doc_tables (d_body (document_of lib data lb))
              = [experiment_table lib (experiments data), details_table_of data]"
    by (auto simp: the_response_def)
  show ?thesis
    apply (rule exI[of _ s'])
    apply (rule exI[of _ "document_of lib data lb"])
    apply (rule exI[of _ "experiment_table lib (experiments data)"])
    apply (rule exI[of _ "details_table_of data"])
    using run f t assms(1)
    by (simp add: experiment_table_def header_row_texts)
qed

text \<open>The hypotheses of C5 as amended hold for the example record without experiments.\<close>

theorem empty_experiments_header_only_witness:
  "experiments empty_data = []
   \<and> record_text_ok empty_data
   \<and> logo_usable demo_libs demo_fs ''/app''
   \<and> can_write demo_fs (output_filename empty_data)
   \<and> (\<exists>s' doc tbl details.
         generate_docx demo_libs ''/app'' demo_fs empty_data = (Inr (the_response empty_data), s')
       \<and> files s' (output_filename empty_data) = Some (Docx doc)
       \<and> doc_tables (d_body doc) = [tbl, details]
       \<and> length (t_rows tbl) = 1
       \<and> map cell_text (t_rows tbl ! 0) = headers)"
proof -
  have e: "experiments empty_data = []" by (simp add: empty_data_def)
  from empty_experiments_header_only[OF e example_texts_ok(1) demo_logo_usable empty_can_write_out]
    e example_texts_ok(1) demo_logo_usable empty_can_write_out
  show ?thesis by blast
qed

text \<open>
  The counterexample to C5 as stated: two records with no experiments whose build fails
  with status 500 and writes nothing. The first has a control character (byte 1) in the
  course title, which lxml refuses; the second has a register number of 300 characters,
  which makes the file name longer than 255 bytes.
\<close>

theorem empty_experiments_build_fails:
  "experiments control_data = []
   \<and> generate_docx demo_libs ''/app'' demo_fs control_data
       = (Inl (HTTPException 500 (Formatted ''Error: '' ValueError)), demo_fs)
   \<and> experiments long_data = []
   \<and> generate_docx demo_libs ''/app'' demo_fs long_data
       = (Inl (HTTPException 500 (Formatted ''Error: '' (OSError (output_filename long_data)))),
          demo_fs)"
proof -
  have a: "experiments control_data = []" and b: "experiments long_data = []"
    by (simp_all add: control_data_def long_data_def empty_data_def)
  have c: "generate_docx demo_libs ''/app'' demo_fs control_data
       = (Inl (HTTPException 500 (Formatted ''Error: '' ValueError)), demo_fs)"
    by (simp add: generate_docx_def generate_docx_try_def demo_no_logo add_title_eq
          control_data_def empty_data_def xml_compatible_def xml_char_ok_def)
  have d: "generate_docx demo_libs ''/app'' demo_fs long_data
       = (Inl (HTTPException 500 (Formatted ''Error: '' (OSError (output_filename long_data)))),
          demo_fs)"
    using long_texts_ok long_cannot_write long_no_nul
    by (simp add: generate_docx_def generate_docx_try_def demo_no_logo add_title_eq
          add_confirmation_eq build_details_eq build_table_unfold b record_text_ok_def
          write_file_eq write_error_def)
  from a b c d show ?thesis by simp
qed

text \<open>
  Claim C6, as amended. The claim says that a register number with a path separator is
  guarded against. The handler has no such check. What holds: on every successful build
  the output path is \<open>/tmp/\<close>, the register number as given, and \<open>_Lab_Record.docx\<close>;
  the document is written at exactly that path, whose parent directory existed.
\<close>

theorem register_number_used_verbatim:
  assumes "generate_docx lib base_dir s data = (Inr resp, s')"
  shows "resp_path resp = ''/tmp/'' @ register_number data @ ''_Lab_Record.docx''
       \<and> (\<exists>doc. files s' (''/tmp/'' @ register_number data @ ''_Lab_Record.docx'') = Some (Docx doc))
       \<and> os_path_dirname (''/tmp/'' @ register_number data @ ''_Lab_Record.docx'') \<in> dirs s
       \<and> ''/tmp/'' @ register_number data @ ''_Lab_Record.docx'' \<notin> dirs s"
proof -
  from generate_docx_success[OF assms] obtain lb where
    "resp = the_response data"
    "can_write s (output_filename data)"
    "files s' (output_filename data) = Some (Docx (document_of lib data lb))"
    by blast
  then show ?thesis
    by (simp add: the_response_def output_filename_def can_write_def)
qed

text \<open>The hypothesis of C6 as amended holds for the example record.\<close>

theorem register_number_used_verbatim_witness:
  "\<exists>resp s'.
      generate_docx demo_libs ''/app'' demo_fs demo_data = (Inr resp, s')
    \<and> resp_path resp = ''/tmp/RA001_Lab_Record.docx''
    \<and> (\<exists>doc. files s' ''/tmp/RA001_Lab_Record.docx'' = Some (Docx doc))"
proof -
  from demo_succeeds obtain s' where
    run: "generate_docx demo_libs ''/app'' demo_fs demo_data = (Inr (the_response demo_data), s')"
    by blast
  from register_number_used_verbatim[OF run] obtain doc where
    a: "resp_path (the_response demo_data)
          = ''/tmp/'' @ register_number demo_data @ ''_Lab_Record.docx''"
    and b: "files s' (''/tmp/'' @ register_number demo_data @ ''_Lab_Record.docx'') = Some (Docx doc)"
    by blast
  have c: "''/tmp/'' @ register_number demo_data @ ''_Lab_Record.docx''
             = ''/tmp/RA001_Lab_Record.docx''"
    by (simp add: demo_data_def)
  show ?thesis
    using run a b c by (intro exI[of _ "the_response demo_data"] exI[of _ s']) simp
qed

text \<open>
  The counterexample to C6 as stated: the register number \<open>a/b\<close> contains a path
  separator, the build is accepted, and the document is written to
  \<open>/tmp/a/b_Lab_Record.docx\<close>, inside the directory \<open>/tmp/a\<close>.
\<close>

theorem slash_register_number_accepted:
  "fst (generate_docx demo_libs ''/app'' nested_fs slash_data) = Inr (the_response slash_data)
   \<and> CHR ''/'' \<in> set (register_number slash_data)
   \<and> resp_path (the_response slash_data) = ''/tmp/a/b_Lab_Record.docx''
   \<and> files (snd (generate_docx demo_libs ''/app'' nested_fs slash_data))
        ''/tmp/a/b_Lab_Record.docx'' \<noteq> None"
proof -
  from slash_succeeds obtain s' where
    run: "generate_docx demo_libs ''/app'' nested_fs slash_data = (Inr (the_response slash_data), s')"
    by blast
  from generate_docx_success[OF run] have
    "files s' (output_filename slash_data) \<noteq> None" by auto
  with run show ?thesis
    by (simp add: the_response_def output_filename_def slash_data_def demo_data_def)
qed

text \<open>
  Claim C7, as amended. The claim says that the suggested filename has no directory
  component. The handler passes \<open>output_filename\<close> both as \<open>path\<close> and as \<open>filename\<close>.
  What holds: on every successful build the suggested filename is the full output path,
  \<open>/tmp/\<close> followed by the register number and \<open>_Lab_Record.docx\<close>.
\<close>

theorem suggested_filename_is_path:
  assumes "generate_docx lib base_dir s data = (Inr resp, s')"
  shows "resp_filename resp = ''/tmp/'' @ register_number data @ ''_Lab_Record.docx''
       \<and> resp_filename resp = resp_path resp
       \<and> startswith (resp_filename resp) ''/tmp/''
       \<and> endswith (resp_filename resp) (register_number data @ ''_Lab_Record.docx'')"
proof -
  from generate_docx_success[OF assms] have "resp = the_response data" by blast
  then show ?thesis
    by (simp add: the_response_def output_filename_def startswith_def endswith_def)
qed

text \<open>The hypothesis of C7 as amended holds for the example record.\<close>

theorem suggested_filename_is_path_witness:
  "\<exists>resp s'.
      generate_docx demo_libs ''/app'' demo_fs demo_data = (Inr resp, s')
    \<and> resp_filename resp = ''/tmp/RA001_Lab_Record.docx''
    \<and> resp_filename resp = resp_path resp"
proof -
  from demo_succeeds obtain s' where
    run: "generate_docx demo_libs ''/app'' demo_fs demo_data = (Inr (the_response demo_data), s')"
    by blast
  from suggested_filename_is_path[OF run] have
    a: "resp_filename (the_response demo_data)
          = ''/tmp/'' @ register_number demo_data @ ''_Lab_Record.docx''"
    and b: "resp_filename (the_response demo_data) = resp_path (the_response demo_data)"
    by blast+
  have c: "''/tmp/'' @ register_number demo_data @ ''_Lab_Record.docx''
             = ''/tmp/RA001_Lab_Record.docx''"
    by (simp add: demo_data_def)
  show ?thesis
    using run a b c by (intro exI[of _ "the_response demo_data"] exI[of _ s']) simp
qed

text \<open>
  The counterexample to C7 as stated: for register number \<open>RA001\<close> the suggested
  filename is \<open>/tmp/RA001_Lab_Record.docx\<close>, not \<open>RA001_Lab_Record.docx\<close>.
\<close>

theorem suggested_filename_has_directory:
  "fst (generate_docx demo_libs ''/app'' demo_fs demo_data)
     = Inr \<lparr>resp_path = ''/tmp/RA001_Lab_Record.docx'',
            resp_filename = ''/tmp/RA001_Lab_Record.docx'',
            resp_media_type =
              ''application/vnd.openxmlformats-officedocument.wordprocessingml.document''\<rparr>
   \<and> register_number demo_data @ ''_Lab_Record.docx'' = ''RA001_Lab_Record.docx''
   \<and> ''/tmp/RA001_Lab_Record.docx'' \<noteq> ''RA001_Lab_Record.docx''
   \<and> CHR ''/'' \<in> set ''/tmp/RA001_Lab_Record.docx''"
proof -
  from demo_succeeds obtain s' where
    run: "generate_docx demo_libs ''/app'' demo_fs demo_data = (Inr (the_response demo_data), s')"
    by blast
  then show ?thesis
    by (simp add: the_response_def output_filename_def demo_data_def)
qed

text \<open>
  Claim C8, as amended. The claim says that the code images and the output document
  are all removed on both paths. What holds on the successful path: when the handler
  returns, no code image file \<open>/tmp/qr_<i>.png\<close> of the build exists, and the output
  document still exists at the path the response is served from.
\<close>

theorem code_images_removed_document_kept:
  assumes "generate_docx lib base_dir s data = (Inr resp, s')"
      and "i < length (experiments data)"
  shows "\<not> os_path_exists s' (qr_filename i) \<and> os_path_exists s' (resp_path resp)"
proof -
  from generate_docx_success[OF assms(1)] obtain lb where
    "resp = the_response data"
    "files s' (output_filename data) = Some (Docx (document_of lib data lb))"
    "\<forall>i\<in>{0..<length (experiments data)}. \<not> os_path_exists s' (qr_filename i)"
    by blast
  with assms(2) show ?thesis
    by (simp add: the_response_def os_path_exists_def)
qed

text \<open>The hypotheses of C8 as amended hold for the example record.\<close>

theorem code_images_removed_document_kept_witness:
  "\<exists>resp s'.
      generate_docx demo_libs ''/app'' demo_fs demo_data = (Inr resp, s')
    \<and> (0::nat) < length (experiments demo_data)
    \<and> \<not> os_path_exists s' ''/tmp/qr_0.png''
    \<and> os_path_exists s' (resp_path resp)"
proof -
  from demo_succeeds obtain s' where
    run: "generate_docx demo_libs ''/app'' demo_fs demo_data = (Inr (the_response demo_data), s')"
    by blast
  have len: "(0::nat) < length (experiments demo_data)"
    by (simp add: demo_data_def)
  from code_images_removed_document_kept[OF run len] run len show ?thesis
    by (simp add: qr_filename_0)
qed

text \<open>
  The counterexample to C8 as stated: after the successful build of the example record
  the output document, which did not exist before, exists.
\<close>

theorem output_document_survives:
  "fst (generate_docx demo_libs ''/app'' demo_fs demo_data) = Inr (the_response demo_data)
   \<and> resp_path (the_response demo_data) = ''/tmp/RA001_Lab_Record.docx''
   \<and> os_path_exists (snd (generate_docx demo_libs ''/app'' demo_fs demo_data))
        ''/tmp/RA001_Lab_Record.docx''
   \<and> \<not> os_path_exists demo_fs ''/tmp/RA001_Lab_Record.docx''"
proof -
  from demo_succeeds obtain s' where
    run: "generate_docx demo_libs ''/app'' demo_fs demo_data = (Inr (the_response demo_data), s')"
    by blast
  from generate_docx_success[OF run] have
    "files s' (output_filename demo_data) \<noteq> None" by auto
  with run show ?thesis
    by (simp add: the_response_def output_filename_def demo_data_def os_path_exists_def demo_fs_def)
qed

text \<open>
  Claim C9. Two successful builds of the same record, in two file systems that agree on
  whether a logo file exists, write documents with the same structure: the same blocks
  in the same number, with the same texts and attributes, the tables equal down to the
  bytes of the code images, and the same response. Only the bytes of the logo picture
  may differ.
\<close>

theorem assembly_deterministic:
  assumes "logo_exists s1 base_dir = logo_exists s2 base_dir"
      and "generate_docx lib base_dir s1 data = (Inr r1, s1')"
      and "generate_docx lib base_dir s2 data = (Inr r2, s2')"
  shows "\<exists>d1 d2.
           files s1' (resp_path r1) = Some (Docx d1)
         \<and> files s2' (resp_path r2) = Some (Docx d2)
         \<and> skeleton d1 = skeleton d2
         \<and> length (d_body d1) = length (d_body d2)
         \<and> doc_tables (d_body d1) = doc_tables (d_body d2)
         \<and> r1 = r2"
proof -
  from success_document[OF assms(2)] obtain lb1 where
    l1: "add_logo lib s1 base_dir = Inr lb1" and r1: "r1 = the_response data"
    and f1: "files s1' (resp_path r1) = Some (Docx (document_of lib data lb1))"
    and t1: "doc_tables (d_body (document_of lib data lb1))
              = [experiment_table lib (experiments data), details_table_of data]"
    by blast
  from success_document[OF assms(3)] obtain lb2 where
    l2: "add_logo lib s2 base_dir = Inr lb2" and r2: "r2 = the_response data"
    and f2: "files s2' (resp_path r2) = Some (Docx (document_of lib data lb2))"
    and t2: "doc_tables (d_body (document_of lib data lb2))
              = [experiment_table lib (experiments data), details_table_of data]"
    by blast
  note L = logo_blocks_skeleton[OF l1 l2 assms(1)]
  have sk: "skeleton (document_of lib data lb1) = skeleton (document_of lib data lb2)"
    using L by (simp add: skeleton_document_of)
  have len: "length (d_body (document_of lib data lb1)) = length (d_body (document_of lib data lb2))"
    using L by (simp add: document_of_def)
  show ?thesis
    apply (rule exI[of _ "document_of lib data lb1"])
    apply (rule exI[of _ "document_of lib data lb2"])
    using f1 f2 sk len t1 t2 r1 r2 by simp
qed

theorem assembly_deterministic_witness:
  "\<exists>r1 s1' r2 s2' d1 d2.
      logo_exists png_logo_fs ''/app'' = logo_exists jpg_logo_fs ''/app''
    \<and> generate_docx demo_libs ''/app'' png_logo_fs demo_data = (Inr r1, s1')
    \<and> generate_docx demo_libs ''/app'' jpg_logo_fs demo_data = (Inr r2, s2')
    \<and> files s1' (resp_path r1) = Some (Docx d1)
    \<and> files s2' (resp_path r2) = Some (Docx d2)
    \<and> skeleton d1 = skeleton d2
    \<and> length (d_body d1) = length (d_body d2)
    \<and> doc_tables (d_body d1) = doc_tables (d_body d2)"
proof -
  from png_logo_succeeds obtain s1' where
    run1: "generate_docx demo_libs ''/app'' png_logo_fs demo_data = (Inr (the_response demo_data), s1')"
    by blast
  from jpg_logo_succeeds obtain s2' where
    run2: "generate_docx demo_libs ''/app'' jpg_logo_fs demo_data = (Inr (the_response demo_data), s2')"
    by blast
  have same: "logo_exists png_logo_fs ''/app'' = logo_exists jpg_logo_fs ''/app''"
    using logos_exist by simp
  from assembly_deterministic[OF same run1 run2] same run1 run2 show ?thesis
    by blast
qed

text \<open>
  Claim C10. An upload whose content type does not start with \<open>image/\<close>, or whose
  lowered extension is not png, jpg or jpeg, is answered with status 500: the handler's
  own \<open>except Exception\<close> clause catches the exception of status 400 and wraps it. The
  file system is left as it was.
\<close>

theorem upload_logo_rejection_is_500:
  assumes "not_image f \<or> bad_extension f"
  shows "status_code (fst (upload_logo lib base_dir s f)) = 500
       \<and> snd (upload_logo lib base_dir s f) = s
       \<and> (\<exists>e. fst (upload_logo lib base_dir s f)
                 = Inl (HTTPException 500 (Formatted ''Error uploading logo: '' e))
              \<and> (content_type f \<noteq> None \<longrightarrow> (\<exists>msg. e = HTTPException 400 (Literal msg))))"
  using assms
  by (auto simp: upload_logo_def upload_logo_try_def not_image_def bad_extension_def Let_def
           split: option.splits)

theorem upload_logo_rejection_is_500_witness:
  "not_image text_upload \<and> bad_extension gif_upload
   \<and> upload_logo demo_libs ''/app'' demo_fs text_upload
       = (Inl (HTTPException 500 (Formatted ''Error uploading logo: ''
                (HTTPException 400 (Literal ''File must be an image'')))), demo_fs)
   \<and> upload_logo demo_libs ''/app'' demo_fs gif_upload
       = (Inl (HTTPException 500 (Formatted ''Error uploading logo: ''
                (HTTPException 400 (Literal ''Only PNG, JPG, JPEG files allowed'')))), demo_fs)
   \<and> status_code (fst (upload_logo demo_libs ''/app'' demo_fs text_upload)) = 500
   \<and> status_code (fst (upload_logo demo_libs ''/app'' demo_fs gif_upload)) = 500"
proof -
  have a: "not_image text_upload"
    by (simp add: not_image_def text_upload_def startswith_def)
  have b: "bad_extension gif_upload"
    by (simp add: bad_extension_def gif_upload_def split_last_def lower_def lower_char_def
          ascii_uppercase_def ascii_lowercase_def)
  have c: "upload_logo demo_libs ''/app'' demo_fs text_upload
       = (Inl (HTTPException 500 (Formatted ''Error uploading logo: ''
                (HTTPException 400 (Literal ''File must be an image'')))), demo_fs)"
    by (simp add: upload_logo_def upload_logo_try_def text_upload_def startswith_def)
  have d: "upload_logo demo_libs ''/app'' demo_fs gif_upload
       = (Inl (HTTPException 500 (Formatted ''Error uploading logo: ''
                (HTTPException 400 (Literal ''Only PNG, JPG, JPEG files allowed'')))), demo_fs)"
    by (simp add: upload_logo_def upload_logo_try_def gif_upload_def startswith_def
          split_last_def lower_def lower_char_def ascii_uppercase_def ascii_lowercase_def)
  have e: "status_code (fst (upload_logo demo_libs ''/app'' demo_fs text_upload)) = 500"
    using upload_logo_rejection_is_500[OF disjI1[OF a], of demo_libs "''/app''" demo_fs]
    by (rule conjunct1)
  have f: "status_code (fst (upload_logo demo_libs ''/app'' demo_fs gif_upload)) = 500"
    using upload_logo_rejection_is_500[OF disjI2[OF b], of demo_libs "''/app''" demo_fs]
    by (rule conjunct1)
  show ?thesis
    by (rule conjI[OF a conjI[OF b conjI[OF c conjI[OF d conjI[OF e f]]]]])
qed

end
